theory Spec2Isabelle
  imports Complex_Main
begin

section \<open>Simulated time, agents, the environment\<close>

text \<open>
  Simulated time and all durations are Python numbers; they are modelled as reals.
  An \<open>Agent\<close> is the dataclass of anylogic_flow_units.py (its \<open>attributes\<close>
  dictionary is never read by the flow units and is left out; \<open>id\<close> is called
  \<open>agent_id\<close>).
\<close>

type_synonym time = real

record agent =
  agent_id :: string
  creation_time :: time
  current_time :: time

text \<open>
  A call \<open>logger.info(...)\<close>, \<open>logger.warning(...)\<close> appends a record:
  the level, the name of the unit, the fixed text of the message, the id of the
  agent, and the simulated time \<open>env.now\<close> of the call (which most messages print).
\<close>

datatype level = INFO | WARNING

datatype log_record = LogRecord level string string string real

text \<open>
  The part of the SimPy environment the flow units touch: the clock \<open>env.now\<close>, the
  log, and the processes started with \<open>env.process(unit.receive_agent(agent))\<close>, each
  written as the name of the receiving unit and the agent handed over.
\<close>

record 'a env =
  now :: time
  logger :: "log_record list"
  processes :: "(string \<times> 'a) list"

definition env_init :: "'a env" where
  "env_init = \<lparr>now = 0, logger = [], processes = []\<rparr>"

definition logger_info :: "string \<Rightarrow> string \<Rightarrow> string \<Rightarrow> 'a env \<Rightarrow> 'a env" where
  "logger_info u m a e = e\<lparr>logger := logger e @ [LogRecord INFO u m a (now e)]\<rparr>"

definition logger_warning :: "string \<Rightarrow> string \<Rightarrow> string \<Rightarrow> 'a env \<Rightarrow> 'a env" where
  "logger_warning u m a e = e\<lparr>logger := logger e @ [LogRecord WARNING u m a (now e)]\<rparr>"

definition ag :: "string \<Rightarrow> agent" where
  "ag n = \<lparr>agent_id = n, creation_time = 0, current_time = 0\<rparr>"

section \<open>FlowUnit\<close>

text \<open>
  The base class: \<open>output_port\<close> is the unit connected downstream (by name), or None.
\<close>

record flow_unit =
  name :: string
  output_port :: "string option"
  agents_entered :: int
  agents_exited :: int

text \<open>
  \<open>send_agent\<close>: with an output port, start the downstream unit's \<open>receive_agent\<close> as a
  new process; without one, warn that the agent reached the end of the flow.
\<close>

definition send_agent ::
  "'u flow_unit_scheme \<Rightarrow> ('a agent_scheme) env \<Rightarrow> 'a agent_scheme \<Rightarrow> ('a agent_scheme) env" where
  "send_agent u e a =
     (case output_port u of
        Some d \<Rightarrow> e\<lparr>processes := processes e @ [(d, a)]\<rparr>
      | None \<Rightarrow> logger_warning (name u) ''reached end of flow at'' (agent_id a) e)"

text \<open>
  The agents a unit counted as forwarded downstream, less the processes
  \<open>send_agent\<close> started there: zero when every started process was counted first.
\<close>

definition not_forwarded :: "'u flow_unit_scheme \<Rightarrow> 'a env \<Rightarrow> int" where
  "not_forwarded u e =
     (case output_port u of None \<Rightarrow> 0 | Some d \<Rightarrow> agents_exited u) - int (length (processes e))"

section \<open>Queue\<close>

text \<open>
  \<open>capacity\<close> is an int or \<open>float('inf')\<close> (the default).
\<close>

datatype cap = Finite int | Infinite

fun len_lt :: "nat \<Rightarrow> cap \<Rightarrow> bool" where
  "len_lt n (Finite c) = (int n < c)"
| "len_lt n Infinite = True"

text \<open>
  The buffer holds the agents in order. With a \<open>priority_func\<close> each entry is the pair
  (agent, priority); without one the entry is the agent alone, written here as a pair
  whose second component is 0 and is never read.
\<close>

record queue_unit = flow_unit +
  capacity :: cap
  priority_func :: "(agent \<Rightarrow> real) option"
  queue :: "(agent \<times> real) list"
  waiting_agents :: "agent list"

definition Queue_init :: "string \<Rightarrow> cap \<Rightarrow> (agent \<Rightarrow> real) option \<Rightarrow> queue_unit" where
  "Queue_init n c f =
     \<lparr>name = n, output_port = None, agents_entered = 0, agents_exited = 0,
      capacity = c, priority_func = f, queue = [], waiting_agents = []\<rparr>"

text \<open>
  The insertion loop of \<open>receive_agent\<close>: before the first stored entry whose priority
  is greater than the new one, at the end when there is none.
\<close>

fun insert_priority :: "agent \<Rightarrow> real \<Rightarrow> (agent \<times> real) list \<Rightarrow> (agent \<times> real) list" where
  "insert_priority a p [] = [(a, p)]"
| "insert_priority a p ((b, q) # rest) =
     (if p < q then (a, p) # (b, q) # rest else (b, q) # insert_priority a p rest)"

text \<open>
  \<open>_try_forward_agent\<close>: when the buffer is not empty and an output port is connected,
  pop the head, count it as exited and send it on. The \<open>yield env.timeout(0)\<close> that
  follows is the suspension point at which the step ends.
\<close>

definition try_forward_agent :: "queue_unit \<Rightarrow> agent env \<Rightarrow> queue_unit \<times> agent env" where
  "try_forward_agent q e =
     (case queue q of
        [] \<Rightarrow> (q, e)
      | (a, p) # rest \<Rightarrow>
          (if output_port q \<noteq> None then
             (let q1 = q\<lparr>queue := rest\<rparr>;
                  q2 = q1\<lparr>agents_exited := agents_exited q1 + 1\<rparr>;
                  e1 = logger_info (name q2) ''forwarding'' (agent_id a) e
              in (q2, send_agent q2 e1 a))
           else (q, e)))"

text \<open>
  \<open>Queue.receive_agent\<close>, the whole step up to its suspension point.
\<close>

definition Queue_receive_agent ::
  "queue_unit \<Rightarrow> agent env \<Rightarrow> agent \<Rightarrow> queue_unit \<times> agent env" where
  "Queue_receive_agent q e a0 =
     (let q1 = q\<lparr>agents_entered := agents_entered q + 1\<rparr>;
          a = a0\<lparr>current_time := now e\<rparr>
      in if len_lt (length (queue q1)) (capacity q1) then
           (let q2 = (case priority_func q1 of
                        Some f \<Rightarrow> q1\<lparr>queue := insert_priority a (f a) (queue q1)\<rparr>
                      | None \<Rightarrow> q1\<lparr>queue := queue q1 @ [(a, 0)]\<rparr>);
                e1 = logger_info (name q2) ''received'' (agent_id a) e
            in try_forward_agent q2 e1)
         else (q1, logger_warning (name q1) ''at capacity, rejecting'' (agent_id a) e))"

text \<open>
  A run of one Queue: the agents arrive one after the other, each at its own time; every
  prefix of the arrivals is a suspension point of the node.
\<close>

fun Queue_run :: "queue_unit \<Rightarrow> agent env \<Rightarrow> (time \<times> agent) list \<Rightarrow> queue_unit \<times> agent env" where
  "Queue_run q e [] = (q, e)"
| "Queue_run q e ((t, a) # rest) =
     (case Queue_receive_agent q (e\<lparr>now := t\<rparr>) a of (q', e') \<Rightarrow> Queue_run q' e' rest)"

text \<open>The arrivals a Queue has refused so far: it keeps no counter, it logs a warning.\<close>

fun is_rejection :: "log_record \<Rightarrow> bool" where
  "is_rejection (LogRecord l u m a t) = (l = WARNING \<and> m = ''at capacity, rejecting'')"

definition rejected :: "'a env \<Rightarrow> int" where
  "rejected e = int (length (filter is_rejection (logger e)))"

section \<open>The SimPy resource\<close>

text \<open>
  Modelled from the spec: \<open>simpy.Resource\<close>, the library class every station
  instance is built from, is not part of the source. Following sections 3 and 4.2 of the
  specification it has a capacity, the list of current holders (\<open>users\<close>) and the
  ordered list of pending requests (\<open>put_queue\<close>); a request is granted when a slot is
  free and it is the head of the pending requests; \<open>release\<close> frees the slot and
  grants the head request in the same step; an ungranted request can be withdrawn.
  Requests are identified by numbers.
\<close>

record resource =
  res_capacity :: nat
  users :: "nat list"
  put_queue :: "nat list"

definition Resource :: "nat \<Rightarrow> resource" where
  "Resource c = \<lparr>res_capacity = c, users = [], put_queue = []\<rparr>"

definition trigger_put :: "resource \<Rightarrow> resource" where
  "trigger_put R =
     (case put_queue R of
        [] \<Rightarrow> R
      | r # rest \<Rightarrow>
          (if length (users R) < res_capacity R
           then R\<lparr>users := users R @ [r], put_queue := rest\<rparr> else R))"

definition request :: "nat \<Rightarrow> resource \<Rightarrow> resource" where
  "request r R = trigger_put (R\<lparr>put_queue := put_queue R @ [r]\<rparr>)"

definition release :: "nat \<Rightarrow> resource \<Rightarrow> resource" where
  "release r R = trigger_put (R\<lparr>users := remove1 r (users R)\<rparr>)"

definition cancel :: "nat \<Rightarrow> resource \<Rightarrow> resource" where
  "cancel r R = R\<lparr>put_queue := remove1 r (put_queue R)\<rparr>"

definition triggered :: "nat \<Rightarrow> resource \<Rightarrow> bool" where
  "triggered r R = (r \<in> set (users R))"

text \<open>The operations on one resource, and a history of them.\<close>

datatype res_op = Request nat | Release nat | Cancel nat

fun apply_op :: "res_op \<Rightarrow> resource \<Rightarrow> resource" where
  "apply_op (Request r) R = request r R"
| "apply_op (Release r) R = release r R"
| "apply_op (Cancel r) R = cancel r R"

section \<open>Service\<close>

fun len_ge :: "nat \<Rightarrow> cap \<Rightarrow> bool" where
  "len_ge n (Finite c) = (int n \<ge> c)"
| "len_ge n Infinite = False"

text \<open>
  The fields of \<open>Service\<close>; those that share a name with a field of \<open>Queue\<close> carry
  the prefix \<open>svc_\<close>.
\<close>

record service_unit = flow_unit +
  svc_capacity :: nat
  service_time :: real
  setup_time :: real
  queue_capacity :: cap
  svc_priority_func :: "(agent \<Rightarrow> real) option"
  svc_resource :: resource
  svc_queue :: "(agent \<times> real) list"
  processing_agents :: "agent list"
  rejected_agents :: int
  total_queue_time :: real
  total_service_time :: real
  service_start_times :: "string \<rightharpoonup> time"
  queue_start_times :: "string \<rightharpoonup> time"

text \<open>
  \<open>_service_process\<close> up to its first suspension point \<open>yield request\<close>: with a
  non-empty buffer, pop the head, add its time in the buffer to \<open>total_queue_time\<close>,
  and request the resource with the fresh request \<open>r\<close>. The result names the agent and
  the request the suspended process waits with.
\<close>

definition service_process_begin ::
  "service_unit \<Rightarrow> agent env \<Rightarrow> nat \<Rightarrow> service_unit \<times> agent env \<times> (agent \<times> nat) option" where
  "service_process_begin s e r =
     (case svc_queue s of
        [] \<Rightarrow> (s, e, None)
      | (a, p) # rest \<Rightarrow>
          (let s1 = s\<lparr>svc_queue := rest\<rparr>;
               s2 = (case queue_start_times s1 (agent_id a) of
                       Some t0 \<Rightarrow>
                         s1\<lparr>total_queue_time := total_queue_time s1 + (now e - t0),
                            queue_start_times := (queue_start_times s1)(agent_id a := None)\<rparr>
                     | None \<Rightarrow> s1);
               s3 = s2\<lparr>svc_resource := request r (svc_resource s2)\<rparr>
           in (s3, e, Some (a, r))))"

text \<open>
  \<open>Service.receive_agent\<close> up to its first suspension point (or its return).
\<close>

definition Service_receive_agent ::
  "service_unit \<Rightarrow> agent env \<Rightarrow> nat \<Rightarrow> agent
     \<Rightarrow> service_unit \<times> agent env \<times> (agent \<times> nat) option" where
  "Service_receive_agent s e r a0 =
     (let s1 = s\<lparr>agents_entered := agents_entered s + 1\<rparr>;
          a = a0\<lparr>current_time := now e\<rparr>
      in if len_ge (length (svc_queue s1)) (queue_capacity s1) then
           (s1\<lparr>rejected_agents := rejected_agents s1 + 1\<rparr>,
            logger_warning (name s1) ''queue full, rejecting'' (agent_id a) e, None)
         else
           (let s2 = s1\<lparr>queue_start_times := (queue_start_times s1)(agent_id a \<mapsto> now e)\<rparr>;
                s3 = (case svc_priority_func s2 of
                        Some f \<Rightarrow> s2\<lparr>svc_queue := insert_priority a (f a) (svc_queue s2)\<rparr>
                      | None \<Rightarrow> s2\<lparr>svc_queue := svc_queue s2 @ [(a, 0)]\<rparr>);
                e1 = logger_info (name s3) ''queued'' (agent_id a) e
            in service_process_begin s3 e1 r))"

definition Service_init ::
  "string \<Rightarrow> nat \<Rightarrow> real \<Rightarrow> cap \<Rightarrow> (agent \<Rightarrow> real) option \<Rightarrow> real \<Rightarrow> service_unit" where
  "Service_init n c st qc f su =
     \<lparr>name = n, output_port = None, agents_entered = 0, agents_exited = 0,
      svc_capacity = c, service_time = st, setup_time = su, queue_capacity = qc,
      svc_priority_func = f, svc_resource = Resource c, svc_queue = [],
      processing_agents = [], rejected_agents = 0, total_queue_time = 0,
      total_service_time = 0, service_start_times = Map.empty,
      queue_start_times = Map.empty\<rparr>"

text \<open>
  The processes of a Service: those suspended at \<open>yield request\<close>, at the setup
  timeout and at the service timeout (each with its request and agent), and those ended
  by the ValueError of a negative timeout, which keep their grant and their agent.
\<close>

record service_sim =
  svc :: service_unit
  senv :: "agent env"
  sv_waiting :: "(nat \<times> agent) list"
  sv_setup :: "(nat \<times> agent) list"
  sv_service :: "(nat \<times> agent) list"
  sv_crashed :: "(nat \<times> agent) list"
  sv_next_req :: nat










text \<open>The agents inside a Service: in its buffer or with one of its processes.\<close>

definition service_held :: "service_sim \<Rightarrow> int" where
  "service_held sim =
     int (length (svc_queue (svc sim)) + length (sv_waiting sim) + length (sv_setup sim)
          + length (sv_service sim) + length (sv_crashed sim))"

text \<open>The balance of a Service: what it counted in, less what it counted out, holds or refused.\<close>

definition service_count :: "service_sim \<Rightarrow> int" where
  "service_count sim = agents_entered (svc sim) - agents_exited (svc sim)
      - service_held sim - rejected_agents (svc sim)"

section \<open>Delay\<close>







section \<open>Combine\<close>











section \<open>SelectOutput\<close>




section \<open>Sink\<close>




section \<open>Source\<close>

datatype py_error = ZeroDivisionError | ValueError | IndexError | KeyError

text \<open>
  Where a generator stands after some of its loop iterations: still in the loop, left by
  \<open>break\<close>, or ended by an exception.
\<close>

datatype status = Running | Stopped | Raised py_error

text \<open>
  \<open>agent_factory\<close> is a callable closing over the source; here it is given the
  number generated so far and the current time.
\<close>

record source_unit = flow_unit +
  arrival_rate :: real
  max_arrivals :: "int option"
  agent_factory :: "int \<Rightarrow> time \<Rightarrow> agent"
  generated_count :: int

text \<open>
  The guard \<open>self.max_arrivals and self.generated_count >= self.max_arrivals\<close>: None
  and 0 are both falsy in Python.
\<close>

definition limit_reached :: "int option \<Rightarrow> int \<Rightarrow> bool" where
  "limit_reached m c = (case m of None \<Rightarrow> False | Some n \<Rightarrow> n \<noteq> 0 \<and> c \<ge> n)"

text \<open>
  \<open>Source._generation_process\<close>: the first argument bounds the number of loop
  iterations looked at (the loop itself is \<open>while True\<close>); \<open>draws i\<close> is the value
  \<open>random.expovariate\<close> returns at its \<open>i\<close>-th call. \<open>expovariate\<close> divides by
  the rate, and \<open>env.timeout\<close> refuses a negative delay.
\<close>

fun generation_process ::
  "nat \<Rightarrow> (nat \<Rightarrow> real) \<Rightarrow> nat \<Rightarrow> source_unit \<Rightarrow> agent env \<Rightarrow> status \<times> source_unit \<times> agent env" where
  "generation_process 0 draws i s e = (Running, s, e)"
| "generation_process (Suc k) draws i s e =
     (if limit_reached (max_arrivals s) (generated_count s) then (Stopped, s, e)
      else if arrival_rate s = 0 then (Raised ZeroDivisionError, s, e)
      else if draws i < 0 then (Raised ValueError, s, e)
      else
        (let e1 = e\<lparr>now := now e + draws i\<rparr>;
             a = agent_factory s (generated_count s) (now e1);
             s1 = s\<lparr>generated_count := generated_count s + 1\<rparr>;
             s2 = s1\<lparr>agents_exited := agents_exited s1 + 1\<rparr>;
             e2 = logger_info (name s2) ''generated'' (agent_id a) e1
         in generation_process k draws (Suc i) s2 (send_agent s2 e2 a)))"

text \<open>Decimal numerals, as Python's format strings print them.\<close>

fun str_nat :: "nat \<Rightarrow> string" where
  "str_nat n = (if n < 10 then [''0123456789'' ! n]
                else str_nat (n div 10) @ [''0123456789'' ! (n mod 10)])"

declare str_nat.simps [simp del]

definition default_agent_factory :: "int \<Rightarrow> time \<Rightarrow> agent" where
  "default_agent_factory n t =
     \<lparr>agent_id = ''Agent_'' @ str_nat (nat n), creation_time = t, current_time = t\<rparr>"

definition Source_init :: "string \<Rightarrow> real \<Rightarrow> int option \<Rightarrow> source_unit" where
  "Source_init n rate m =
     \<lparr>name = n, output_port = None, agents_entered = 0, agents_exited = 0,
      arrival_rate = rate, max_arrivals = m, agent_factory = default_agent_factory,
      generated_count = 0\<rparr>"

section \<open>WaferAgent, WaferSource\<close>

record processing_record =
  pr_wafer_id :: string
  pr_lot_id :: string
  pr_unit_id :: string
  pr_seq_id :: int
  pr_resource_id :: string
  pr_start_time :: time
  pr_end_time :: time
  pr_duration :: time

record wafer_agent = agent +
  lot_id :: string
  current_seq_id :: int
  processing_history :: "processing_record list"
  start_time :: time

definition WaferAgent :: "string \<Rightarrow> string \<Rightarrow> time \<Rightarrow> wafer_agent" where
  "WaferAgent w l t =
     \<lparr>agent_id = w, creation_time = t, current_time = t,
      lot_id = l, current_seq_id = 1, processing_history = [], start_time = t\<rparr>"

definition log_processing_step ::
  "wafer_agent \<Rightarrow> string \<Rightarrow> int \<Rightarrow> time \<Rightarrow> time \<Rightarrow> string \<Rightarrow> wafer_agent" where
  "log_processing_step a u sq t0 t1 rid =
     a\<lparr>processing_history := processing_history a @
         [\<lparr>pr_wafer_id = agent_id a, pr_lot_id = lot_id a, pr_unit_id = u, pr_seq_id = sq,
           pr_resource_id = rid, pr_start_time = t0, pr_end_time = t1,
           pr_duration = t1 - t0\<rparr>]\<rparr>"

text \<open>Padding with zeros, as \<open>{n:03d}\<close> and \<open>{n:02d}\<close> do.\<close>

definition zfill :: "nat \<Rightarrow> string \<Rightarrow> string" where
  "zfill w x = replicate (w - length x) CHR ''0'' @ x"

record wafer_source = source_unit +
  lot_size :: int
  lot_interval :: real
  max_lots :: "int option"
  lot_count :: int

text \<open>
  The inner loop \<open>for wafer_idx in range(self.lot_size)\<close>: create the wafer, count
  it, send it, then wait \<open>random.uniform(10, 30)\<close>; \<open>gaps i\<close> is the value drawn for
  the wafer generated when \<open>generated_count\<close> was \<open>i\<close>.
\<close>

fun generate_lot ::
  "string \<Rightarrow> nat \<Rightarrow> nat \<Rightarrow> (nat \<Rightarrow> real) \<Rightarrow> wafer_source \<Rightarrow> wafer_agent env
     \<Rightarrow> wafer_source \<times> wafer_agent env" where
  "generate_lot l 0 idx gaps s e = (s, e)"
| "generate_lot l (Suc n) idx gaps s e =
     (let w = WaferAgent (l @ ''_W'' @ zfill 2 (str_nat idx)) l (now e);
          s1 = s\<lparr>generated_count := generated_count s + 1\<rparr>;
          s2 = s1\<lparr>agents_exited := agents_exited s1 + 1\<rparr>;
          e1 = logger_info (name s2) ''generated wafer'' (agent_id w) e;
          e2 = send_agent s2 e1 w;
          e3 = e2\<lparr>now := now e2 + gaps (nat (generated_count s))\<rparr>
      in generate_lot l n (Suc idx) gaps s2 e3)"

text \<open>
  \<open>WaferSource.__init__\<close> calls the constructor of \<open>Source\<close> with the name only, so
  the arrival rate is 1 and \<open>max_arrivals\<close> is None.
\<close>

definition WaferSource_init :: "string \<Rightarrow> int \<Rightarrow> real \<Rightarrow> int option \<Rightarrow> wafer_source" where
  "WaferSource_init n ls li ml =
     \<lparr>name = n, output_port = None, agents_entered = 0, agents_exited = 0,
      arrival_rate = 1, max_arrivals = None, agent_factory = default_agent_factory,
      generated_count = 0, lot_size = ls, lot_interval = li, max_lots = ml, lot_count = 0\<rparr>"

text \<open>
  \<open>WaferSource._generation_process\<close>, the first argument again bounding the number of
  iterations of \<open>while True\<close> looked at.
\<close>

fun WaferSource_generation_process ::
  "nat \<Rightarrow> (nat \<Rightarrow> real) \<Rightarrow> wafer_source \<Rightarrow> wafer_agent env
     \<Rightarrow> status \<times> wafer_source \<times> wafer_agent env" where
  "WaferSource_generation_process 0 gaps s e = (Running, s, e)"
| "WaferSource_generation_process (Suc k) gaps s e =
     (if limit_reached (max_lots s) (lot_count s) then (Stopped, s, e)
      else
        (case generate_lot (''LOT_'' @ zfill 3 (str_nat (nat (lot_count s))))
                (nat (lot_size s)) 0 gaps s e of
           (s1, e1) \<Rightarrow>
             (let s2 = s1\<lparr>lot_count := lot_count s1 + 1\<rparr>
              in if (case max_lots s2 of None \<Rightarrow> True | Some m \<Rightarrow> lot_count s2 < m) then
                   (if lot_interval s2 < 0 then (Raised ValueError, s2, e1)
                    else WaferSource_generation_process k gaps s2
                           (e1\<lparr>now := now e1 + lot_interval s2\<rparr>))
                 else WaferSource_generation_process k gaps s2 e1)))"

section \<open>Flow steps and processing times\<close>

text \<open>
  One entry of the \<open>unit_flow\<close> table of the configuration. The sequence id is given as
  a numeral and read with \<open>int(...)\<close> wherever it is compared; it is an integer here.
\<close>

record flow_step =
  seq_id :: int
  unit_id :: string
  duration_mean :: real
  duration_std :: real
  duration_min :: real
  transfer :: bool

text \<open>
  \<open>np.random.normal(mean, std)\<close> returns \<open>mean + std * z\<close> for a standard normal
  variate \<open>z\<close>; the variate drawn is a parameter. A negative \<open>std\<close> is refused with
  a ValueError.
\<close>

definition normal :: "real \<Rightarrow> real \<Rightarrow> real \<Rightarrow> real" where
  "normal mean std z = mean + std * z"

section \<open>SemiconductorToolUnit\<close>

text \<open>A Python dictionary that keeps insertion order: assigning to a present key keeps
  its place.\<close>

fun dict_set :: "'k \<Rightarrow> 'v \<Rightarrow> ('k \<times> 'v) list \<Rightarrow> ('k \<times> 'v) list" where
  "dict_set k v [] = [(k, v)]"
| "dict_set k v ((k', v') # rest) =
     (if k = k' then (k, v) # rest else (k', v') # dict_set k v rest)"

record tool_unit = flow_unit +
  tu_unit_id :: string
  resources :: "(string \<times> resource) list"
  unit_flow_steps :: "(int \<times> flow_step) list"
  is_transfer_unit :: bool
  resource_names :: "string list"
  resource_index :: nat

text \<open>
  \<open>SemiconductorToolUnit.__init__\<close>: the steps of this unit keyed by sequence id, and
  one new \<open>simpy.Resource\<close> of capacity 1 for every resource name given to this unit.
\<close>

definition SemiconductorToolUnit_init ::
  "string \<Rightarrow> string list \<Rightarrow> flow_step list \<Rightarrow> bool \<Rightarrow> tool_unit" where
  "SemiconductorToolUnit_init u rs steps tr =
     \<lparr>name = u, output_port = None, agents_entered = 0, agents_exited = 0,
      tu_unit_id = u,
      resources = fold (\<lambda>r acc. dict_set r (Resource 1) acc) rs [],
      unit_flow_steps =
        fold (\<lambda>st acc. dict_set (seq_id st) st acc) (filter (\<lambda>st. unit_id st = u) steps) [],
      is_transfer_unit = tr, resource_names = rs, resource_index = 0\<rparr>"

text \<open>\<open>get_next_resource\<close>: round robin; indexing an empty list raises IndexError.\<close>

definition get_next_resource :: "tool_unit \<Rightarrow> py_error + (string \<times> tool_unit)" where
  "get_next_resource u =
     (if length (resource_names u) = 1 then Inr (resource_names u ! 0, u)
      else if resource_index u < length (resource_names u) then
        Inr (resource_names u ! resource_index u,
             u\<lparr>resource_index := (resource_index u + 1) mod length (resource_names u)\<rparr>)
      else Inl IndexError)"

text \<open>
  \<open>get_processing_time\<close>, with the normal variate \<open>z\<close> of the draw.
\<close>

definition get_processing_time :: "tool_unit \<Rightarrow> int \<Rightarrow> real \<Rightarrow> py_error + real" where
  "get_processing_time u sq z =
     (case map_of (unit_flow_steps u) sq of
        None \<Rightarrow> Inr 0
      | Some st \<Rightarrow>
          (if duration_mean st = 0 then Inr 0
           else if duration_std st < 0 then Inl ValueError
           else Inr (max (duration_min st)
                         (normal (duration_mean st) (duration_std st) z))))"

text \<open>
  How the first stretch of \<open>receive_agent\<close> ends: it has returned, it is suspended at
  \<open>yield request\<close> (with the resource name, the request, the processing time and the
  start time it keeps for later), or it has raised.
\<close>

datatype tool_outcome = Returned | Suspended string nat real time | Failed py_error

text \<open>
  \<open>_process_wafer\<close> up to its first suspension point; \<open>r\<close> is the new request.
\<close>

definition process_wafer ::
  "tool_unit \<Rightarrow> wafer_agent env \<Rightarrow> nat \<Rightarrow> real \<Rightarrow> wafer_agent \<Rightarrow> flow_step
     \<Rightarrow> tool_unit \<times> wafer_agent env \<times> wafer_agent \<times> tool_outcome" where
  "process_wafer u e r z a st =
     (let t0 = now e in
      if duration_mean st = 0 then
        (let a1 = log_processing_step a (tu_unit_id u) (seq_id st) t0 t0 ''N/A'';
             a2 = a1\<lparr>current_seq_id := current_seq_id a1 + 1\<rparr>;
             u1 = u\<lparr>agents_exited := agents_exited u + 1\<rparr>
         in (u1, send_agent u1 e a2, a2, Returned))
      else
        (case get_next_resource u of
           Inl err \<Rightarrow> (u, e, a, Failed err)
         | Inr (rn, u1) \<Rightarrow>
             (case map_of (resources u1) rn of
                None \<Rightarrow> (u1, e, a, Failed KeyError)
              | Some res \<Rightarrow>
                  (case get_processing_time u1 (seq_id st) z of
                     Inl err \<Rightarrow> (u1, e, a, Failed err)
                   | Inr pt \<Rightarrow>
                       (u1\<lparr>resources := dict_set rn (request r res) (resources u1)\<rparr>,
                        e, a, Suspended rn r pt t0)))))"

text \<open>
  \<open>SemiconductorToolUnit.receive_agent\<close> up to its first suspension point or return.
\<close>

definition SemiconductorToolUnit_receive_agent ::
  "tool_unit \<Rightarrow> wafer_agent env \<Rightarrow> nat \<Rightarrow> real \<Rightarrow> wafer_agent
     \<Rightarrow> tool_unit \<times> wafer_agent env \<times> wafer_agent \<times> tool_outcome" where
  "SemiconductorToolUnit_receive_agent u e r z a =
     (let u1 = u\<lparr>agents_entered := agents_entered u + 1\<rparr> in
      case find (\<lambda>st. seq_id st = current_seq_id a) (map snd (unit_flow_steps u1)) of
        None \<Rightarrow>
          (let e1 = logger_warning (name u1) ''No step found for agent'' (agent_id a) e;
               a1 = a\<lparr>current_seq_id := current_seq_id a + 1\<rparr>;
               u2 = u1\<lparr>agents_exited := agents_exited u1 + 1\<rparr>
           in (u2, send_agent u2 e1 a1, a1, Returned))
      | Some st \<Rightarrow> process_wafer u1 e r z a st)"

text \<open>
  The rest of \<open>_process_wafer\<close> after the timeout of the processing time: log the step
  from the start time to now, advance the sequence pointer, count the exit, forward, and
  release the request on leaving the \<open>with\<close> block.
\<close>

definition process_wafer_complete ::
  "tool_unit \<Rightarrow> wafer_agent env \<Rightarrow> wafer_agent \<Rightarrow> flow_step \<Rightarrow> string \<Rightarrow> nat \<Rightarrow> time
     \<Rightarrow> tool_unit \<times> wafer_agent env \<times> wafer_agent" where
  "process_wafer_complete u e a st rn r t0 =
     (let a1 = log_processing_step a (tu_unit_id u) (seq_id st) t0 (now e) rn;
          a2 = a1\<lparr>current_seq_id := current_seq_id a1 + 1\<rparr>;
          u1 = u\<lparr>agents_exited := agents_exited u + 1\<rparr>;
          e1 = send_agent u1 e a2;
          u2 = (case map_of (resources u1) rn of
                  None \<Rightarrow> u1
                | Some res \<Rightarrow> u1\<lparr>resources := dict_set rn (release r res) (resources u1)\<rparr>)
      in (u2, e1, a2))"

text \<open>The requests that hold the resource a unit keeps under a part's name.\<close>

definition holders :: "tool_unit \<Rightarrow> string \<Rightarrow> nat list" where
  "holders u p = (case map_of (resources u) p of None \<Rightarrow> [] | Some res \<Rightarrow> users res)"

section \<open>FlowController\<close>

text \<open>
  Lines 93 to 98 of \<open>_process_wafer_flow\<close>: the processing time of a step whose mean is
  not zero.
\<close>

definition FlowController_processing_time :: "flow_step \<Rightarrow> real \<Rightarrow> real" where
  "FlowController_processing_time st z =
     (if duration_std st > 0
      then max (duration_min st) (normal (duration_mean st) (duration_std st) z)
      else duration_mean st)"

text \<open>
  \<open>_process_wafer_flow\<close> for a wafer that finds every pool free, so that each
  \<open>yield request\<close> resumes at once: the steps in order, \<open>zs i\<close> being the normal variate
  of the \<open>i\<close>-th draw; the result is the time at the end and the wafer with its history,
  or the ValueError of a negative timeout. \<open>pools\<close> are the units that have a resource
  pool.
\<close>

fun process_wafer_flow ::
  "string list \<Rightarrow> flow_step list \<Rightarrow> (nat \<Rightarrow> real) \<Rightarrow> nat \<Rightarrow> time \<Rightarrow> wafer_agent
     \<Rightarrow> py_error + (time \<times> wafer_agent)" where
  "process_wafer_flow pools [] zs i t a = Inr (t, a)"
| "process_wafer_flow pools (st # rest) zs i t a =
     (if unit_id st = ''LOADPORT'' then process_wafer_flow pools rest zs i t a
      else if duration_mean st = 0 then
        process_wafer_flow pools rest zs i t
          (log_processing_step a (unit_id st) (seq_id st) t t ''N/A'')
      else
        (let i' = (if duration_std st > 0 then Suc i else i);
             pt = FlowController_processing_time st (zs i)
         in if unit_id st \<in> set pools then
              (if pt < 0 then Inl ValueError
               else process_wafer_flow pools rest zs i' (t + pt)
                      (log_processing_step a (unit_id st) (seq_id st) t (t + pt) (unit_id st)))
            else process_wafer_flow pools rest zs i' t a))"

section \<open>ResourcePool\<close>

text \<open>
  A \<open>ResourcePool\<close> without a priority function (with one, the resource is a
  \<open>PriorityResource\<close>, which is not modelled). The service time is the number given at
  construction.
\<close>

record resource_pool = flow_unit +
  pool_resource :: resource
  pool_service_time :: real
  pool_capacity :: nat

definition ResourcePool_init :: "string \<Rightarrow> nat \<Rightarrow> real \<Rightarrow> resource_pool" where
  "ResourcePool_init n c st =
     \<lparr>name = n, output_port = None, agents_entered = 0, agents_exited = 0,
      pool_resource = Resource c, pool_service_time = st, pool_capacity = c\<rparr>"

text \<open>
  The pool with its processes: those suspended at \<open>yield request\<close> (request and
  agent), those suspended at \<open>yield self.env.timeout(service)\<close> (due time, request
  and agent, in the order in which the timeouts were scheduled), and those ended by the
  ValueError of a negative service time, which keep their grant and their agent.
\<close>

record pool_sim =
  pool :: resource_pool
  penv :: "agent env"
  suspended :: "(nat \<times> agent) list"
  timers :: "(time \<times> nat \<times> agent) list"
  crashed :: "(nat \<times> agent) list"
  next_req :: nat

definition pool_sim_init :: "resource_pool \<Rightarrow> pool_sim" where
  "pool_sim_init p =
     \<lparr>pool = p, penv = env_init, suspended = [], timers = [], crashed = [], next_req = 0\<rparr>"

text \<open>
  \<open>receive_agent\<close> and \<open>_resource_process\<close> up to \<open>yield request\<close>.
\<close>

definition ResourcePool_receive_agent :: "pool_sim \<Rightarrow> agent \<Rightarrow> pool_sim" where
  "ResourcePool_receive_agent sim a0 =
     (let p = pool sim;
          p1 = p\<lparr>agents_entered := agents_entered p + 1\<rparr>;
          a = a0\<lparr>current_time := now (penv sim)\<rparr>;
          e1 = logger_info (name p1) ''received'' (agent_id a) (penv sim);
          r = next_req sim;
          p2 = p1\<lparr>pool_resource := request r (pool_resource p1)\<rparr>
      in sim\<lparr>pool := p2, penv := e1, suspended := suspended sim @ [(r, a)],
             next_req := r + 1\<rparr>)"

text \<open>
  A process resumes from \<open>yield request\<close> once its request is granted, at the time of
  the grant: it logs that it seized the resource and starts the service timeout, which a
  negative service time turns into a ValueError.
\<close>

definition seize :: "nat \<times> agent \<Rightarrow> pool_sim \<Rightarrow> pool_sim" where
  "seize ra sim =
     (let s1 = sim\<lparr>penv := logger_info (name (pool sim)) ''seized resource for''
                            (agent_id (snd ra)) (penv sim)\<rparr>
      in if pool_service_time (pool sim) < 0
         then s1\<lparr>crashed := crashed s1 @ [ra]\<rparr>
         else s1\<lparr>timers := timers s1 @
                    [(now (penv sim) + pool_service_time (pool sim), fst ra, snd ra)]\<rparr>)"

text \<open>All suspended processes whose request is granted resume, in the order they came.\<close>

definition resume_granted :: "pool_sim \<Rightarrow> pool_sim" where
  "resume_granted sim =
     fold seize
       (filter (\<lambda>ra. triggered (fst ra) (pool_resource (pool sim))) (suspended sim))
       (sim\<lparr>suspended :=
          filter (\<lambda>ra. \<not> triggered (fst ra) (pool_resource (pool sim))) (suspended sim)\<rparr>)"

text \<open>
  The rest of \<open>_resource_process\<close> after the service timeout: release, count the exit,
  log, forward.
\<close>

definition ResourcePool_complete :: "pool_sim \<Rightarrow> nat \<Rightarrow> agent \<Rightarrow> pool_sim" where
  "ResourcePool_complete sim r a =
     (let p = pool sim;
          p1 = p\<lparr>pool_resource := release r (pool_resource p)\<rparr>;
          p2 = p1\<lparr>agents_exited := agents_exited p1 + 1\<rparr>;
          e1 = logger_info (name p2) ''completed processing'' (agent_id a) (penv sim)
      in sim\<lparr>pool := p2, penv := send_agent p2 e1 a\<rparr>)"

text \<open>The timeout that fires next: the earliest, and among equals the first scheduled.\<close>

fun next_timer :: "(time \<times> nat \<times> agent) list \<Rightarrow> (time \<times> nat \<times> agent) option" where
  "next_timer [] = None"
| "next_timer (x # xs) =
     (case next_timer xs of
        None \<Rightarrow> Some x
      | Some y \<Rightarrow> if fst y < fst x then Some y else Some x)"

text \<open>
  The scheduler for one pool: \<open>arrivals\<close> are the agents handed to \<open>receive_agent\<close>
  with their times, in order. The event with the earliest time runs next; the clock moves
  to its time, and the processes whose requests are granted resume at that time. In which
  order the real scheduler runs two events that fall on the same time depends on when each
  was scheduled, which the arrival times do not tell; so the result is None when two
  pending events share a time, and also when the first argument, a bound on the number of
  events, is used up before the events are.
\<close>

fun pool_run :: "nat \<Rightarrow> (time \<times> agent) list \<Rightarrow> pool_sim \<Rightarrow> pool_sim option" where
  "pool_run 0 arrivals sim = (if arrivals = [] \<and> timers sim = [] then Some sim else None)"
| "pool_run (Suc k) arrivals sim =
     (if \<not> distinct (map fst (timers sim) @ map fst arrivals) then None
      else
       (case (next_timer (timers sim), arrivals) of
          (None, []) \<Rightarrow> Some sim
        | (Some (t, r, a), []) \<Rightarrow>
            (let s1 = sim\<lparr>penv := (penv sim)\<lparr>now := t\<rparr>,
                          timers := remove1 (t, r, a) (timers sim)\<rparr>;
                 s2 = ResourcePool_complete s1 r a
             in pool_run k [] (resume_granted s2))
        | (None, (ta, b) # rest) \<Rightarrow>
            (let s1 = sim\<lparr>penv := (penv sim)\<lparr>now := ta\<rparr>\<rparr>;
                 s2 = ResourcePool_receive_agent s1 b
             in pool_run k rest (resume_granted s2))
        | (Some (t, r, a), (ta, b) # rest) \<Rightarrow>
            (if t < ta then
               (let s1 = sim\<lparr>penv := (penv sim)\<lparr>now := t\<rparr>,
                             timers := remove1 (t, r, a) (timers sim)\<rparr>;
                    s2 = ResourcePool_complete s1 r a
                in pool_run k ((ta, b) # rest) (resume_granted s2))
             else
               (let s1 = sim\<lparr>penv := (penv sim)\<lparr>now := ta\<rparr>\<rparr>;
                    s2 = ResourcePool_receive_agent s1 b
                in pool_run k rest (resume_granted s2)))))"



text \<open>The balance of a pool: what it counted in, less what it counted out or holds.\<close>

definition pool_count :: "pool_sim \<Rightarrow> int" where
  "pool_count sim = agents_entered (pool sim) - agents_exited (pool sim)
      - int (length (suspended sim) + length (timers sim) + length (crashed sim))"

section \<open>MetalTool\<close>

text \<open>
  \<open>unit_capability\<close> is a list of dictionaries from unit id to the names of its parts.
  \<open>MetalTool.__init__\<close> creates one shared \<open>simpy.Resource\<close> of capacity 1 for each
  distinct part name, and maps every unit to its parts; a part entry refers to the shared
  resource by the name of the part.
\<close>

type_synonym store = "string \<rightharpoonup> resource"

record metal_tool =
  shared_resources :: store
  unit_to_parts :: "(string \<times> string list) list"

definition MetalTool_init :: "(string \<times> string list) list list \<Rightarrow> metal_tool" where
  "MetalTool_init uc =
     \<lparr>shared_resources = map_of (map (\<lambda>p. (p, Resource 1)) (concat (map snd (concat uc)))),
      unit_to_parts = fold (\<lambda>(u, ps) acc. dict_set u ps acc) (concat uc) []\<rparr>"

section \<open>The hold-and-wait wafer process\<close>

text \<open>
  What the process does to resources, in order: the requests it issues, the grants it
  finds on resumption (with the time), the releases and the cancellations.
\<close>

datatype res_event =
  Requested nat string
| Granted nat string time
| Released nat string time
| Cancelled nat string

datatype diag =
  NoToolsAvailable string string
| TimeoutInitial string string
| NoRequestAcquired string
| TimeoutNext string string
| NoNextRequestAcquired string
| ErrorInWaferProcess string

record log_entry =
  WaferID :: string
  UnitID :: string
  SeqID :: int
  PartID :: "string option"
  Start :: "time option"
  Finish :: time

text \<open>
  The state of one wafer process: the clock, the shared resources of the tool, the local
  variables of \<open>wafer_process\<close>, the log, what was printed, the two trackers at this
  wafer's id, a counter for new requests, the number of \<open>any_of\<close> waits so far, and the
  resource events.
\<close>

record wafer_state =
  w_now :: time
  w_store :: store
  current_resource :: "string option"
  current_request :: "nat option"
  current_part_name :: "string option"
  resource_start_time :: "time option"
  wafer_log :: "log_entry list"
  printed :: "diag list"
  start_time_tracker :: "time option"
  end_time_tracker :: "time option"
  next_request :: nat
  races :: nat
  trace :: "res_event list"

definition wafer_state_init :: "time \<Rightarrow> store \<Rightarrow> wafer_state" where
  "wafer_state_init t st =
     \<lparr>w_now = t, w_store = st, current_resource = None, current_request = None,
      current_part_name = None, resource_start_time = None, wafer_log = [], printed = [],
      start_time_tracker = None, end_time_tracker = None, next_request = 0, races = 0,
      trace = []\<rparr>"

text \<open>
  How a request stands when the process resumes from
  \<open>yield env.any_of(requests + [timeout_event])\<close>: in the result of the wait (so
  granted), granted but not in the result, or not triggered.
\<close>

datatype req_status = InResult | GrantedOnly | Pending

text \<open>
  The outcome of one wait, decided by the scheduler and the other processes: whether the
  timeout event is in the result, the time that passed otherwise, the status of each
  request in order, and the shared resources as they are on resumption.
\<close>

record race =
  timed_out :: bool
  elapsed :: time
  statuses :: "req_status list"
  store_after :: store

type_synonym world = "nat \<Rightarrow> store \<Rightarrow> (nat \<times> string) list \<Rightarrow> race"

definition store_request :: "nat \<Rightarrow> string \<Rightarrow> store \<Rightarrow> store" where
  "store_request r p st = (case st p of Some R \<Rightarrow> st(p \<mapsto> request r R) | None \<Rightarrow> st)"

definition store_release :: "nat \<Rightarrow> string \<Rightarrow> store \<Rightarrow> store" where
  "store_release r p st = (case st p of Some R \<Rightarrow> st(p \<mapsto> release r R) | None \<Rightarrow> st)"

definition store_cancel :: "nat \<Rightarrow> string \<Rightarrow> store \<Rightarrow> store" where
  "store_cancel r p st = (case st p of Some R \<Rightarrow> st(p \<mapsto> cancel r R) | None \<Rightarrow> st)"

text \<open>
  \<open>requests = [part["resource"].request() for part in unit_available]\<close>, the requests
  numbered from \<open>n\<close>.
\<close>

fun make_requests :: "nat \<Rightarrow> string list \<Rightarrow> store \<Rightarrow> (nat \<times> string) list \<times> store" where
  "make_requests n [] st = ([], st)"
| "make_requests n (p # ps) st =
     (case make_requests (Suc n) ps (store_request n p st) of
        (rs, st') \<Rightarrow> ((n, p) # rs, st'))"

text \<open>Each request with its status; a request the outcome does not mention is pending.\<close>

definition with_status ::
  "(nat \<times> string) list \<Rightarrow> req_status list \<Rightarrow> ((nat \<times> string) \<times> req_status) list" where
  "with_status reqs sts = zip reqs (sts @ replicate (length reqs - length sts) Pending)"

text \<open>The grants the process finds on resumption at time \<open>t\<close>.\<close>

definition grants :: "((nat \<times> string) \<times> req_status) list \<Rightarrow> time \<Rightarrow> res_event list" where
  "grants zs t = map (\<lambda>((r, p), s). Granted r p t) (filter (\<lambda>(rp, s). s \<noteq> Pending) zs)"

text \<open>
  \<open>for req in requests: if not req.triggered: req.cancel()\<close>.
\<close>

fun cancel_untriggered ::
  "((nat \<times> string) \<times> req_status) list \<Rightarrow> wafer_state \<Rightarrow> wafer_state" where
  "cancel_untriggered [] s = s"
| "cancel_untriggered (((r, p), st) # zs) s =
     cancel_untriggered zs
       (if st = Pending
        then s\<lparr>w_store := store_cancel r p (w_store s), trace := trace s @ [Cancelled r p]\<rparr>
        else s)"

text \<open>
  The loop \<open>for req in requests: if req in result: acquired_request = req; break\<close>.
\<close>

definition first_in_result ::
  "((nat \<times> string) \<times> req_status) list \<Rightarrow> (nat \<times> string) option" where
  "first_in_result zs = map_option fst (find (\<lambda>(rp, s). s = InResult) zs)"

datatype control = Next | Return | Exception

definition print :: "diag \<Rightarrow> wafer_state \<Rightarrow> wafer_state" where
  "print m s = s\<lparr>printed := printed s @ [m]\<rparr>"

text \<open>
  \<open>yield env.timeout(step["duration_min"])\<close>: a negative delay raises ValueError
  inside the \<open>try\<close> block; otherwise the clock advances and the loop goes on.
\<close>

definition timed_processing :: "flow_step \<Rightarrow> wafer_state \<Rightarrow> wafer_state \<times> control" where
  "timed_processing st s =
     (if duration_min st < 0 then (s, Exception)
      else (s\<lparr>w_now := w_now s + duration_min st\<rparr>, Next))"

text \<open>\<open>current_resource.release(current_request)\<close>.\<close>

definition release_current :: "wafer_state \<Rightarrow> wafer_state" where
  "release_current s =
     (case (current_resource s, current_request s) of
        (Some p, Some r) \<Rightarrow>
          s\<lparr>w_store := store_release r p (w_store s),
            trace := trace s @ [Released r p (w_now s)]\<rparr>
      | _ \<Rightarrow> s)"

text \<open>\<open>sorted_flow[idx-1]\<close>; Python reads index -1 as the last element.\<close>

definition prev_step :: "flow_step list \<Rightarrow> nat \<Rightarrow> flow_step" where
  "prev_step sf idx = (if idx = 0 then last sf else sf ! (idx - 1))"

text \<open>
  Both branches of the loop body begin alike: issue a request to every part of the unit,
  then wait for any of them or for \<open>env.timeout(1000)\<close>. The result is the outcome of
  the wait, the requests with their status, and the state on resumption.
\<close>

definition wait_for_unit ::
  "world \<Rightarrow> string list \<Rightarrow> wafer_state
     \<Rightarrow> race \<times> ((nat \<times> string) \<times> req_status) list \<times> wafer_state" where
  "wait_for_unit wld unit_available s =
     (case make_requests (next_request s) unit_available (w_store s) of
        (reqs, st1) \<Rightarrow>
          (let s1 = s\<lparr>w_store := st1,
                      next_request := next_request s + length unit_available,
                      trace := trace s @ map (\<lambda>(r, p). Requested r p) reqs\<rparr>;
               rc = wld (races s1) st1 reqs;
               t1 = w_now s1 + (if timed_out rc then 1000 else elapsed rc);
               zs = with_status reqs (statuses rc);
               s2 = s1\<lparr>w_now := t1, w_store := store_after rc, races := races s1 + 1,
                       trace := trace s1 @ grants zs t1\<rparr>
           in (rc, zs, s2)))"

text \<open>
  The branch \<open>if current_resource is None\<close> after the wait (lines 62 to 89).
\<close>

definition first_acquisition ::
  "string \<Rightarrow> flow_step \<Rightarrow> race \<Rightarrow> ((nat \<times> string) \<times> req_status) list \<Rightarrow> wafer_state
     \<Rightarrow> wafer_state \<times> control" where
  "first_acquisition wid st rc zs s2 =
     (if timed_out rc then
        (let s3 = cancel_untriggered zs s2;
             s4 = print (TimeoutInitial wid (unit_id st)) s3
         in (s4\<lparr>end_time_tracker := Some (w_now s4)\<rparr>, Return))
      else
        (case first_in_result zs of
           None \<Rightarrow>
             (let s3 = print (NoRequestAcquired wid) s2
              in (s3\<lparr>end_time_tracker := Some (w_now s3)\<rparr>, Return))
         | Some (r, p) \<Rightarrow>
             (let s3 = s2\<lparr>current_resource := Some p,
                         current_part_name := Some p,
                         current_request := Some r,
                         resource_start_time := Some (w_now s2)\<rparr>;
                  s4 = cancel_untriggered zs s3
              in timed_processing st s4)))"

text \<open>
  The hold-and-wait branch after the wait (lines 98 to 148).
\<close>

definition next_acquisition ::
  "string \<Rightarrow> flow_step list \<Rightarrow> nat \<Rightarrow> flow_step \<Rightarrow> race
     \<Rightarrow> ((nat \<times> string) \<times> req_status) list \<Rightarrow> wafer_state \<Rightarrow> wafer_state \<times> control" where
  "next_acquisition wid sf idx st rc zs s2 =
     (if timed_out rc then
        (let s3 = cancel_untriggered zs s2;
             s4 = print (TimeoutNext wid (unit_id st)) s3
         in timed_processing st s4)
      else
        (case first_in_result zs of
           None \<Rightarrow> timed_processing st (print (NoNextRequestAcquired wid) s2)
         | Some (r, p) \<Rightarrow>
             (let s3 = cancel_untriggered zs s2;
                  s4 = s3\<lparr>wafer_log := wafer_log s3 @
                         [\<lparr>WaferID = wid,
                           UnitID = unit_id (prev_step sf idx),
                           SeqID = seq_id (prev_step sf idx),
                           PartID = current_part_name s3,
                           Start = resource_start_time s3,
                           Finish = w_now s3\<rparr>]\<rparr>;
                  s5 = release_current s4;
                  s6 = s5\<lparr>current_resource := Some p,
                         current_request := Some r,
                         current_part_name := Some p,
                         resource_start_time := Some (w_now s5)\<rparr>
              in timed_processing st s6)))"

text \<open>
  One iteration of \<open>for idx, step in enumerate(sorted_flow)\<close>, from its start to the
  end of the iteration (\<open>Next\<close>: the loop goes on with the following step), to a
  \<open>return\<close>, or to an exception.
\<close>

definition wafer_iteration ::
  "metal_tool \<Rightarrow> string \<Rightarrow> flow_step list \<Rightarrow> world \<Rightarrow> nat \<Rightarrow> flow_step \<Rightarrow> wafer_state
     \<Rightarrow> wafer_state \<times> control" where
  "wafer_iteration tool wid sf wld idx st s =
     (let unit_available = (case map_of (unit_to_parts tool) (unit_id st) of
                              None \<Rightarrow> [] | Some ps \<Rightarrow> ps)
      in if unit_available = [] then (print (NoToolsAvailable (unit_id st) wid) s, Next)
         else
           (case wait_for_unit wld unit_available s of
              (rc, zs, s2) \<Rightarrow>
                (if current_resource s2 = None then first_acquisition wid st rc zs s2
                 else next_acquisition wid sf idx st rc zs s2)))"

text \<open>The loop over the remaining steps, \<open>idx\<close> being the index of the first of them.\<close>

fun wafer_loop ::
  "metal_tool \<Rightarrow> string \<Rightarrow> flow_step list \<Rightarrow> world \<Rightarrow> nat \<Rightarrow> flow_step list \<Rightarrow> wafer_state
     \<Rightarrow> wafer_state \<times> control" where
  "wafer_loop tool wid sf wld idx [] s = (s, Next)"
| "wafer_loop tool wid sf wld idx (st # rest) s =
     (case wafer_iteration tool wid sf wld idx st s of
        (s', Next) \<Rightarrow> wafer_loop tool wid sf wld (Suc idx) rest s'
      | (s', c) \<Rightarrow> (s', c))"

text \<open>
  After the loop: log the final resource usage and release it.
\<close>

definition final_usage :: "string \<Rightarrow> flow_step list \<Rightarrow> wafer_state \<Rightarrow> wafer_state" where
  "final_usage wid sf s =
     (if current_resource s \<noteq> None then
        release_current
          (s\<lparr>wafer_log := wafer_log s @
               [\<lparr>WaferID = wid, UnitID = unit_id (last sf), SeqID = seq_id (last sf),
                 PartID = current_part_name s, Start = resource_start_time s,
                 Finish = w_now s\<rparr>]\<rparr>)
      else s)"

text \<open>The \<open>except\<close> block: print, and release what is held.\<close>

definition cleanup :: "string \<Rightarrow> wafer_state \<Rightarrow> wafer_state" where
  "cleanup wid s =
     (let s1 = print (ErrorInWaferProcess wid) s
      in if current_resource s1 \<noteq> None \<and> current_request s1 \<noteq> None
         then release_current s1 else s1)"

text \<open>
  \<open>wafer_process\<close>: the non-transfer steps sorted by sequence id (\<open>sorted\<close> is stable,
  as \<open>sort_key\<close> is), the loop, and what follows it.
\<close>

definition wafer_process ::
  "metal_tool \<Rightarrow> string \<Rightarrow> flow_step list \<Rightarrow> bool \<Rightarrow> world \<Rightarrow> wafer_state \<Rightarrow> wafer_state" where
  "wafer_process tool wid unit_flow start_at_step wld s0 =
     (let s = (if \<not> start_at_step then s0\<lparr>start_time_tracker := Some (w_now s0)\<rparr> else s0);
          sorted_flow = sort_key seq_id (filter (\<lambda>st. \<not> transfer st) unit_flow)
      in if sorted_flow = [] then s\<lparr>end_time_tracker := Some (w_now s)\<rparr>
         else
           (case wafer_loop tool wid sorted_flow wld 0 sorted_flow s of
              (s1, Next) \<Rightarrow>
                (let s2 = final_usage wid sorted_flow s1
                 in s2\<lparr>end_time_tracker := Some (w_now s2)\<rparr>)
            | (s1, Return) \<Rightarrow> s1
            | (s1, Exception) \<Rightarrow>
                (let s2 = cleanup wid s1
                 in s2\<lparr>end_time_tracker := Some (w_now s2)\<rparr>)))"

text \<open>
  A wafer alone in the tool: nobody else requests or releases, so a request is in the
  result of the wait exactly when it was granted at once, and when none was, the timeout
  fires.
\<close>

definition solo_world :: world where
  "solo_world k st reqs =
     (let sts = map (\<lambda>(r, p). case st p of
                                 Some R \<Rightarrow> if r \<in> set (users R) then InResult else Pending
                               | None \<Rightarrow> Pending) reqs
      in \<lparr>timed_out = (InResult \<notin> set sts), elapsed = 0, statuses = sts, store_after = st\<rparr>)"

definition n_granted :: "res_event list \<Rightarrow> nat" where
  "n_granted tr = length (filter (\<lambda>ev. case ev of Granted r p t \<Rightarrow> True | _ \<Rightarrow> False) tr)"

definition n_released :: "res_event list \<Rightarrow> nat" where
  "n_released tr = length (filter (\<lambda>ev. case ev of Released r p t \<Rightarrow> True | _ \<Rightarrow> False) tr)"


section \<open>Example configurations\<close>

text \<open>A deterministic step: sequence id, unit, and the duration as mean and minimum.\<close>

definition stp :: "int \<Rightarrow> string \<Rightarrow> real \<Rightarrow> flow_step" where
  "stp n u d =
     \<lparr>seq_id = n, unit_id = u, duration_mean = d, duration_std = 0, duration_min = d,
      transfer = False\<rparr>"

text \<open>
  A tool with two units of one part each, and the flow that visits A for 5 and then B for
  7 time units.
\<close>

definition two_unit_tool :: metal_tool where
  "two_unit_tool = MetalTool_init [[(''A'', [''P1''])], [(''B'', [''Q1''])]]"

definition two_unit_flow :: "flow_step list" where
  "two_unit_flow = [stp 1 ''A'' 5, stp 2 ''B'' 7]"



text \<open>
  A tool with three units of one part each and the flow through A, B and C; its resources
  when Q1, the only part of B, is held by the request 99 of another process, which never
  releases it.
\<close>

definition three_unit_tool :: metal_tool where
  "three_unit_tool = MetalTool_init [[(''A'', [''P1''])], [(''B'', [''Q1''])], [(''C'', [''S1''])]]"

definition three_unit_flow :: "flow_step list" where
  "three_unit_flow = [stp 1 ''A'' 5, stp 2 ''B'' 7, stp 3 ''C'' 3]"

definition middle_saturated_store :: store where
  "middle_saturated_store = store_request 99 ''Q1'' (shared_resources three_unit_tool)"

text \<open>
  Two station groups that name the same physical part R1, a flow through both, and the
  unit objects built for them.
\<close>

definition shared_part_flow :: "flow_step list" where
  "shared_part_flow = [stp 1 ''A'' 5, stp 2 ''B'' 7]"

definition unit_A :: tool_unit where
  "unit_A = (SemiconductorToolUnit_init ''A'' [''R1''] shared_part_flow False)
              \<lparr>output_port := Some ''B''\<rparr>"

definition unit_B :: tool_unit where
  "unit_B = (SemiconductorToolUnit_init ''B'' [''R1''] shared_part_flow False)
              \<lparr>output_port := Some ''WaferSink''\<rparr>"

text \<open>A step with mean 10, no deviation and minimum 20, and one with minimum 5.\<close>

definition step_min_above_mean :: flow_step where
  "step_min_above_mean =
     \<lparr>seq_id = 1, unit_id = ''A'', duration_mean = 10, duration_std = 0, duration_min = 20,
      transfer = False\<rparr>"

definition step_min_below_mean :: flow_step where
  "step_min_below_mean =
     \<lparr>seq_id = 1, unit_id = ''A'', duration_mean = 10, duration_std = 0, duration_min = 5,
      transfer = False\<rparr>"

section \<open>Arrivals at a full buffer\<close>

text \<open>
  C7 (as amended). An arrival at a Queue whose buffer is not below its capacity is not
  fatal: the step returns, the agent is neither stored nor forwarded, \<open>agents_entered\<close>
  grows by one and a warning is logged; the Queue has no rejection counter and no other
  field changes. An arrival at a Service whose buffer has reached \<open>queue_capacity\<close> is
  dropped in the same way, and there \<open>rejected_agents\<close> grows by one.
\<close>

theorem full_buffer_arrival:
  "(\<not> len_lt (length (queue q)) (capacity q) \<longrightarrow>
      Queue_receive_agent q e a =
        (q\<lparr>agents_entered := agents_entered q + 1\<rparr>,
         logger_warning (name q) ''at capacity, rejecting'' (agent_id a) e))
   \<and> (len_ge (length (svc_queue s)) (queue_capacity s) \<longrightarrow>
      Service_receive_agent s e r a =
        (s\<lparr>agents_entered := agents_entered s + 1, rejected_agents := rejected_agents s + 1\<rparr>,
         logger_warning (name s) ''queue full, rejecting'' (agent_id a) e, None))"
  by (simp add: Queue_receive_agent_def Service_receive_agent_def Let_def)

theorem full_buffer_arrival_witness:
  "\<not> len_lt (length (queue (Queue_init ''Q'' (Finite 0) None)))
         (capacity (Queue_init ''Q'' (Finite 0) None))
   \<and> agents_entered (fst (Queue_receive_agent (Queue_init ''Q'' (Finite 0) None)
                            env_init (ag ''a1''))) = 1
   \<and> len_ge (length (svc_queue (Service_init ''S'' 1 5 (Finite 0) None 0)))
         (queue_capacity (Service_init ''S'' 1 5 (Finite 0) None 0))
   \<and> rejected_agents (fst (Service_receive_agent (Service_init ''S'' 1 5 (Finite 0) None 0)
                            env_init 0 (ag ''a1''))) = 1"
  using full_buffer_arrival [of "Queue_init ''Q'' (Finite 0) None" env_init "ag ''a1''"
          "Service_init ''S'' 1 5 (Finite 0) None 0" 0]
  by (simp add: Queue_init_def Service_init_def)

text \<open>
  The claim as stated fails for the Queue: a Queue of capacity 1 without an output port
  holds the first arrival and refuses the second; after the refusal the only counter that
  has grown is \<open>agents_entered\<close> (there is no rejection counter among its fields).
\<close>

theorem queue_rejection_counterexample:
  "Queue_run (Queue_init ''Q'' (Finite 1) None) env_init [(0, ag ''a1''), (1, ag ''a2'')]
     = (\<lparr>name = ''Q'', output_port = None, agents_entered = 2, agents_exited = 0,
         capacity = Finite 1, priority_func = None,
         queue = [(\<lparr>agent_id = ''a1'', creation_time = 0, current_time = 0\<rparr>, 0)],
         waiting_agents = []\<rparr>,
        \<lparr>now = 1,
         logger = [LogRecord INFO ''Q'' ''received'' ''a1'' 0,
                   LogRecord WARNING ''Q'' ''at capacity, rejecting'' ''a2'' 1],
         processes = []\<rparr>)"
  by (simp add: Queue_receive_agent_def try_forward_agent_def Queue_init_def env_init_def
        ag_def logger_warning_def logger_info_def Let_def)

section \<open>Conservation of agents in a flow node\<close>


lemma rejected_info [simp]: "rejected (logger_info u m a e) = rejected e"
  by (simp add: rejected_def logger_info_def)























lemma pool_now_count [simp]: "pool_count (sim\<lparr>penv := e\<rparr>) = pool_count sim"
  by (simp add: pool_count_def)









lemma service_now_count [simp]:
  "service_count (sim\<lparr>senv := e\<rparr>) = service_count sim"
  by (simp add: service_count_def service_held_def)



lemma not_forwarded_log [simp]:
  "not_forwarded u (logger_info n m i e) = not_forwarded u e"
  "not_forwarded u (logger_warning n m i e) = not_forwarded u e"
  "not_forwarded u (e\<lparr>now := t\<rparr>) = not_forwarded u e"
  by (simp_all add: not_forwarded_def logger_info_def logger_warning_def)























section \<open>A maximum count of zero\<close>

lemma limit_reached_unset [simp]:
  "limit_reached None c = False" "limit_reached (Some 0) c = False"
  by (simp_all add: limit_reached_def)

lemma send_agent_cong:
  "name u = name v \<Longrightarrow> output_port u = output_port v \<Longrightarrow> send_agent u e a = send_agent v e a"
  by (simp add: send_agent_def split: option.splits)

lemma send_agent_max_arrivals [simp]:
  "send_agent (s\<lparr>max_arrivals := m\<rparr>) e a = send_agent s e a"
  by (rule send_agent_cong) simp_all

lemma upd_comm:
  "(s\<lparr>generated_count := g, agents_exited := x\<rparr>)\<lparr>max_arrivals := m\<rparr>
     = s\<lparr>max_arrivals := m, generated_count := g, agents_exited := x\<rparr>"
  by simp

lemma upd_comm2:
  "(s\<lparr>generated_count := g, agents_exited := x\<rparr>)\<lparr>max_lots := m, lot_interval := li\<rparr>
     = s\<lparr>max_lots := m, lot_interval := li, generated_count := g, agents_exited := x\<rparr>"
  by simp

lemma send_agent_source_upd [simp]:
  "send_agent (s\<lparr>max_arrivals := m, generated_count := g, agents_exited := x\<rparr>) e a
     = send_agent s e a"
  by (rule send_agent_cong) simp_all

lemma send_agent_source_upd2 [simp]:
  "send_agent (s\<lparr>generated_count := g, agents_exited := x\<rparr>) e a = send_agent s e a"
  by (rule send_agent_cong) simp_all

lemma send_agent_source_upd3 [simp]:
  "send_agent (s\<lparr>max_lots := ml, lot_interval := li, generated_count := g,
                 agents_exited := x\<rparr>) e a = send_agent s e a"
  by (rule send_agent_cong) simp_all

lemma generation_zero_as_none:
  "generation_process k draws i (s\<lparr>max_arrivals := Some 0\<rparr>) e
     = (case generation_process k draws i (s\<lparr>max_arrivals := None\<rparr>) e of
          (st, s', e') \<Rightarrow> (st, s'\<lparr>max_arrivals := Some 0\<rparr>, e'))"
proof (induction k arbitrary: i s e)
  case 0
  show ?case by simp
next
  case (Suc k)
  show ?case
    using Suc.IH [of "Suc i"
        "s\<lparr>generated_count := generated_count s + 1, agents_exited := agents_exited s + 1\<rparr>"]
    by (simp add: Let_def upd_comm)
qed

lemma generation_unbounded:
  "max_arrivals s = None \<or> max_arrivals s = Some 0 \<Longrightarrow> arrival_rate s \<noteq> 0 \<Longrightarrow>
   \<forall>j. 0 \<le> draws j \<Longrightarrow>
   fst (generation_process k draws i s e) = Running
   \<and> generated_count (fst (snd (generation_process k draws i s e))) = generated_count s + int k"
proof (induction k arbitrary: i s e)
  case 0
  show ?case by simp
next
  case (Suc k)
  let ?s2 = "s\<lparr>generated_count := generated_count s + 1,
                agents_exited := agents_exited s + 1\<rparr>"
  have nl: "\<not> limit_reached (max_arrivals s) (generated_count s)"
    using Suc.prems(1) by auto
  have d: "\<not> draws i < 0" using Suc.prems(3) by (simp add: not_less)
  have m2: "max_arrivals ?s2 = None \<or> max_arrivals ?s2 = Some 0" using Suc.prems(1) by simp
  have r2: "arrival_rate ?s2 \<noteq> 0" using Suc.prems(2) by simp
  show ?case
    using Suc.IH [OF m2 r2 Suc.prems(3)] nl d Suc.prems(2)
    by (simp add: Let_def)
qed

lemma generation_limited:
  "max_arrivals s = Some m \<Longrightarrow> 0 < m \<Longrightarrow> generated_count s \<le> m \<Longrightarrow> arrival_rate s \<noteq> 0 \<Longrightarrow>
   \<forall>j. 0 \<le> draws j \<Longrightarrow> n = nat (m - generated_count s) \<Longrightarrow>
   fst (generation_process (Suc n) draws i s e) = Stopped
   \<and> generated_count (fst (snd (generation_process (Suc n) draws i s e))) = m"
proof (induction n arbitrary: i s e)
  case 0
  then have "generated_count s = m" by simp
  with 0 show ?case by (simp add: limit_reached_def)
next
  case (Suc n)
  let ?s2 = "s\<lparr>generated_count := generated_count s + 1,
                agents_exited := agents_exited s + 1\<rparr>"
  from Suc.prems have lt: "generated_count s < m" by simp
  have nl: "\<not> limit_reached (max_arrivals s) (generated_count s)"
    using Suc.prems(1) lt by (simp add: limit_reached_def)
  have d: "\<not> draws i < 0" using Suc.prems(5) by (simp add: not_less)
  have a: "max_arrivals ?s2 = Some m" "generated_count ?s2 \<le> m" "arrival_rate ?s2 \<noteq> 0"
     "n = nat (m - generated_count ?s2)"
    using Suc.prems lt by auto
  define e2 where "e2 = send_agent ?s2
       (logger_info (name ?s2) ''generated''
          (agent_id (agent_factory s (generated_count s) (now e + draws i)))
          (e\<lparr>now := now e + draws i\<rparr>))
       (agent_factory s (generated_count s) (now e + draws i))"
  have step: "generation_process (Suc (Suc n)) draws i s e
                = generation_process (Suc n) draws (Suc i) ?s2 e2"
    using nl d Suc.prems(4)
    by (subst generation_process.simps)
       (simp add: Let_def e2_def del: generation_process.simps)
  show ?case
    unfolding step
    by (rule Suc.IH [OF a(1) Suc.prems(2) a(2) a(3) Suc.prems(5) a(4)])
qed

lemma generate_lot_fields:
  "generate_lot l n idx gaps (s\<lparr>max_lots := m, lot_interval := li\<rparr>) e
     = (case generate_lot l n idx gaps s e of
          (s', e') \<Rightarrow> (s'\<lparr>max_lots := m, lot_interval := li\<rparr>, e'))"
proof (induction n arbitrary: idx s e)
  case 0
  show ?case by simp
next
  case (Suc n)
  show ?case
    using Suc.IH [of "Suc idx"
        "s\<lparr>generated_count := generated_count s + 1, agents_exited := agents_exited s + 1\<rparr>"]
    by (simp add: Let_def upd_comm2 send_agent_def split: option.splits)
qed

lemma generate_lot_keeps:
  "max_lots (fst (generate_lot l n idx gaps s e)) = max_lots s
   \<and> lot_interval (fst (generate_lot l n idx gaps s e)) = lot_interval s
   \<and> lot_count (fst (generate_lot l n idx gaps s e)) = lot_count s
   \<and> lot_size (fst (generate_lot l n idx gaps s e)) = lot_size s"
proof (induction n arbitrary: idx s e)
  case 0
  then show ?case by simp
next
  case (Suc n)
  show ?case
    using Suc.IH [of "Suc idx"
        "s\<lparr>generated_count := generated_count s + 1, agents_exited := agents_exited s + 1\<rparr>"]
    by (simp add: Let_def)
qed


lemma generate_lot_max_lots:
  "generate_lot l n idx gaps (s\<lparr>max_lots := m\<rparr>) e
     = (case generate_lot l n idx gaps s e of (s', e') \<Rightarrow> (s'\<lparr>max_lots := m\<rparr>, e'))"
proof -
  have "s\<lparr>max_lots := m\<rparr> = s\<lparr>max_lots := m, lot_interval := lot_interval s\<rparr>" by simp
  then have "generate_lot l n idx gaps (s\<lparr>max_lots := m\<rparr>) e
     = (case generate_lot l n idx gaps s e of
          (s', e') \<Rightarrow> (s'\<lparr>max_lots := m, lot_interval := lot_interval s\<rparr>, e'))"
    using generate_lot_fields [where s=s and m=m and li="lot_interval s" and e=e and l=l and n=n and idx=idx and gaps=gaps] by simp
  moreover have "lot_interval (fst (generate_lot l n idx gaps s e)) = lot_interval s"
    using generate_lot_keeps by blast
  ultimately show ?thesis by (auto split: prod.splits)
qed

lemma upd_comm3:
  "s\<lparr>max_lots := m, lot_count := c\<rparr> = s\<lparr>lot_count := c, max_lots := m\<rparr>"
  by simp

lemma upd_comm4:
  "s\<lparr>max_lots := m, lot_interval := li, lot_count := c\<rparr>
     = s\<lparr>lot_count := c, max_lots := m, lot_interval := li\<rparr>"
  by simp

lemma wafer_zero_no_wait:
  "0 \<le> lot_count s \<Longrightarrow>
   WaferSource_generation_process k gaps (s\<lparr>max_lots := Some 0\<rparr>) e
     = (case WaferSource_generation_process k gaps (s\<lparr>max_lots := None, lot_interval := 0\<rparr>) e of
          (st, s', e') \<Rightarrow> (st, s'\<lparr>max_lots := Some 0, lot_interval := lot_interval s\<rparr>, e'))"
proof (induction k arbitrary: s e)
  case 0
  show ?case by simp
next
  case (Suc k)
  let ?l = "''LOT_'' @ zfill 3 (str_nat (nat (lot_count s)))"
  obtain s1 e1 where g: "generate_lot ?l (nat (lot_size s)) 0 gaps s e = (s1, e1)"
    by (cases "generate_lot ?l (nat (lot_size s)) 0 gaps s e")
  have keep: "lot_interval s1 = lot_interval s" "lot_count s1 = lot_count s"
    using generate_lot_keeps [of ?l "nat (lot_size s)" 0 gaps s e] g by simp_all
  let ?s2 = "s1\<lparr>lot_count := lot_count s1 + 1\<rparr>"
  have c2: "0 \<le> lot_count ?s2" using keep Suc.prems by simp
  have gz: "generate_lot ?l (nat (lot_size s)) 0 gaps (s\<lparr>max_lots := Some 0\<rparr>) e
              = (s1\<lparr>max_lots := Some 0\<rparr>, e1)"
    using generate_lot_max_lots [where l="?l" and n="nat (lot_size s)" and idx=0 and gaps=gaps and s=s and m="Some 0" and e=e] g by simp
  have gn: "generate_lot ?l (nat (lot_size s)) 0 gaps (s\<lparr>max_lots := None, lot_interval := 0\<rparr>) e
              = (s1\<lparr>max_lots := None, lot_interval := 0\<rparr>, e1)"
    using generate_lot_fields [where l="?l" and n="nat (lot_size s)" and idx=0 and gaps=gaps and s=s and m=None and li=0 and e=e] g by simp
  have lhs: "WaferSource_generation_process (Suc k) gaps (s\<lparr>max_lots := Some 0\<rparr>) e
               = WaferSource_generation_process k gaps (?s2\<lparr>max_lots := Some 0\<rparr>) e1"
    using gz c2 keep by (simp add: Let_def upd_comm3)
  have rhs: "WaferSource_generation_process (Suc k) gaps (s\<lparr>max_lots := None, lot_interval := 0\<rparr>) e
               = WaferSource_generation_process k gaps (?s2\<lparr>max_lots := None, lot_interval := 0\<rparr>) e1"
    using gn by (simp add: Let_def upd_comm4)
  show ?case
    unfolding lhs rhs using Suc.IH [OF c2, of e1] keep by simp
qed

lemma wafer_zero_unbounded:
  "0 \<le> lot_count s \<Longrightarrow> max_lots s = Some 0 \<Longrightarrow>
   fst (WaferSource_generation_process k gaps s e) = Running
   \<and> lot_count (fst (snd (WaferSource_generation_process k gaps s e))) = lot_count s + int k"
proof (induction k arbitrary: s e)
  case 0
  show ?case by simp
next
  case (Suc k)
  let ?l = "''LOT_'' @ zfill 3 (str_nat (nat (lot_count s)))"
  obtain s1 e1 where g: "generate_lot ?l (nat (lot_size s)) 0 gaps s e = (s1, e1)"
    by (cases "generate_lot ?l (nat (lot_size s)) 0 gaps s e")
  have keep: "max_lots s1 = max_lots s" "lot_count s1 = lot_count s"
    using generate_lot_keeps [of ?l "nat (lot_size s)" 0 gaps s e] g by simp_all
  let ?s2 = "s1\<lparr>lot_count := lot_count s1 + 1\<rparr>"
  have c2: "0 \<le> lot_count ?s2" "max_lots ?s2 = Some 0" using keep Suc.prems by simp_all
  have step: "WaferSource_generation_process (Suc k) gaps s e
               = WaferSource_generation_process k gaps ?s2 e1"
    using g c2 keep Suc.prems by (simp add: Let_def)
  show ?case
    unfolding step using Suc.IH [OF c2, of e1] keep by simp
qed


text \<open>
  C10 (as amended). The guard treats a maximum of 0 as unset. A Source with
  \<open>max_arrivals = 0\<close> behaves exactly as with None and, given a non-zero rate and
  non-negative inter-arrival draws, is still generating after any number of iterations,
  having generated one agent in each; with a positive maximum \<open>m\<close> it stops after
  exactly \<open>m\<close> agents. A WaferSource with \<open>max_lots = 0\<close> never stops generating
  lots either, but it does not wait \<open>lot_interval\<close> between lots: it behaves as with
  None and a lot interval of zero.
\<close>

theorem zero_maximum_unset:
  "generation_process k draws i (s\<lparr>max_arrivals := Some 0\<rparr>) e
     = (case generation_process k draws i (s\<lparr>max_arrivals := None\<rparr>) e of
          (st, s', e') \<Rightarrow> (st, s'\<lparr>max_arrivals := Some 0\<rparr>, e'))
   \<and> (arrival_rate s \<noteq> 0 \<and> (\<forall>j. 0 \<le> draws j) \<longrightarrow>
        fst (generation_process k draws i (s\<lparr>max_arrivals := Some 0\<rparr>) e) = Running
        \<and> generated_count (fst (snd (generation_process k draws i
               (s\<lparr>max_arrivals := Some 0\<rparr>) e))) = generated_count s + int k)
   \<and> (arrival_rate s \<noteq> 0 \<and> (\<forall>j. 0 \<le> draws j) \<and> 0 < m \<and> generated_count s \<le> m \<longrightarrow>
        fst (generation_process (Suc (nat (m - generated_count s))) draws i
               (s\<lparr>max_arrivals := Some m\<rparr>) e) = Stopped
        \<and> generated_count (fst (snd (generation_process (Suc (nat (m - generated_count s)))
               draws i (s\<lparr>max_arrivals := Some m\<rparr>) e))) = m)
   \<and> (0 \<le> lot_count w \<longrightarrow>
        WaferSource_generation_process k gaps (w\<lparr>max_lots := Some 0\<rparr>) we
          = (case WaferSource_generation_process k gaps
                    (w\<lparr>max_lots := None, lot_interval := 0\<rparr>) we of
               (st, w', we') \<Rightarrow> (st, w'\<lparr>max_lots := Some 0, lot_interval := lot_interval w\<rparr>, we'))
        \<and> fst (WaferSource_generation_process k gaps (w\<lparr>max_lots := Some 0\<rparr>) we) = Running
        \<and> lot_count (fst (snd (WaferSource_generation_process k gaps
               (w\<lparr>max_lots := Some 0\<rparr>) we))) = lot_count w + int k)"
proof -
  have a: "arrival_rate s \<noteq> 0 \<Longrightarrow> \<forall>j. 0 \<le> draws j \<Longrightarrow>
        fst (generation_process k draws i (s\<lparr>max_arrivals := Some 0\<rparr>) e) = Running
        \<and> generated_count (fst (snd (generation_process k draws i
               (s\<lparr>max_arrivals := Some 0\<rparr>) e))) = generated_count s + int k"
    using generation_unbounded [of "s\<lparr>max_arrivals := Some 0\<rparr>" draws k i e] by simp
  have b: "arrival_rate s \<noteq> 0 \<Longrightarrow> \<forall>j. 0 \<le> draws j \<Longrightarrow> 0 < m \<Longrightarrow> generated_count s \<le> m \<Longrightarrow>
        fst (generation_process (Suc (nat (m - generated_count s))) draws i
               (s\<lparr>max_arrivals := Some m\<rparr>) e) = Stopped
        \<and> generated_count (fst (snd (generation_process (Suc (nat (m - generated_count s)))
               draws i (s\<lparr>max_arrivals := Some m\<rparr>) e))) = m"
    using generation_limited [of "s\<lparr>max_arrivals := Some m\<rparr>" m draws
            "nat (m - generated_count s)" i e] by simp
  have c: "0 \<le> lot_count w \<Longrightarrow>
        fst (WaferSource_generation_process k gaps (w\<lparr>max_lots := Some 0\<rparr>) we) = Running
        \<and> lot_count (fst (snd (WaferSource_generation_process k gaps
               (w\<lparr>max_lots := Some 0\<rparr>) we))) = lot_count w + int k"
    using wafer_zero_unbounded [of "w\<lparr>max_lots := Some 0\<rparr>" k gaps we] by simp
  show ?thesis
    using generation_zero_as_none [of k draws i s e] a b c wafer_zero_no_wait [of w k gaps we]
    by blast
qed

theorem zero_maximum_unset_witness:
  "arrival_rate (Source_init ''Src'' 1 None) \<noteq> 0
   \<and> generated_count (Source_init ''Src'' 1 None) \<le> 2
   \<and> 0 \<le> lot_count (WaferSource_init ''W'' 1 3600 None)
   \<and> fst (generation_process 3 (\<lambda>j. 1) 0 (Source_init ''Src'' 1 (Some 0)) env_init) = Running
   \<and> generated_count (fst (snd (generation_process 3 (\<lambda>j. 1) 0
                                    (Source_init ''Src'' 1 (Some 0)) env_init))) = 3
   \<and> fst (generation_process 3 (\<lambda>j. 1) 0 (Source_init ''Src'' 1 (Some 2)) env_init) = Stopped
   \<and> generated_count (fst (snd (generation_process 3 (\<lambda>j. 1) 0
                                    (Source_init ''Src'' 1 (Some 2)) env_init))) = 2
   \<and> fst (WaferSource_generation_process 3 (\<lambda>j. 10)
            (WaferSource_init ''W'' 1 3600 (Some 0)) env_init) = Running
   \<and> lot_count (fst (snd (WaferSource_generation_process 3 (\<lambda>j. 10)
            (WaferSource_init ''W'' 1 3600 (Some 0)) env_init))) = 3"
proof -
  have s0: "(Source_init ''Src'' 1 None)\<lparr>max_arrivals := Some 0\<rparr> = Source_init ''Src'' 1 (Some 0)"
    and s2: "(Source_init ''Src'' 1 None)\<lparr>max_arrivals := Some 2\<rparr> = Source_init ''Src'' 1 (Some 2)"
    and w0: "(WaferSource_init ''W'' 1 3600 None)\<lparr>max_lots := Some 0\<rparr>
               = WaferSource_init ''W'' 1 3600 (Some 0)"
    and g: "generated_count (Source_init ''Src'' 1 None) = 0"
      "arrival_rate (Source_init ''Src'' 1 None) = 1"
      "lot_count (WaferSource_init ''W'' 1 3600 None) = 0"
    by (simp_all add: Source_init_def WaferSource_init_def)
  have n: "Suc (nat (2 - generated_count (Source_init ''Src'' 1 None))) = 3"
    by (simp add: g)
  have h: "arrival_rate (Source_init ''Src'' 1 None) \<noteq> 0" "\<forall>j::nat. (0::real) \<le> 1"
    "(0::int) < 2" "generated_count (Source_init ''Src'' 1 None) \<le> 2"
    "0 \<le> lot_count (WaferSource_init ''W'' 1 3600 None)"
    by (simp_all add: g)
  note fact = zero_maximum_unset [where k=3 and draws="\<lambda>j. 1" and i=0
            and s="Source_init ''Src'' 1 None" and e=env_init and m=2
            and w="WaferSource_init ''W'' 1 3600 None" and gaps="\<lambda>j. 10" and we=env_init,
            unfolded s0 s2 w0 n]
  from fact h have
    "fst (generation_process 3 (\<lambda>j. 1) 0 (Source_init ''Src'' 1 (Some 0)) env_init) = Running"
    "generated_count (fst (snd (generation_process 3 (\<lambda>j. 1) 0
        (Source_init ''Src'' 1 (Some 0)) env_init)))
       = generated_count (Source_init ''Src'' 1 None) + int 3"
    "fst (generation_process 3 (\<lambda>j. 1) 0 (Source_init ''Src'' 1 (Some 2)) env_init) = Stopped"
    "generated_count (fst (snd (generation_process 3 (\<lambda>j. 1) 0
        (Source_init ''Src'' 1 (Some 2)) env_init))) = 2"
    "fst (WaferSource_generation_process 3 (\<lambda>j. 10)
            (WaferSource_init ''W'' 1 3600 (Some 0)) env_init) = Running"
    "lot_count (fst (snd (WaferSource_generation_process 3 (\<lambda>j. 10)
            (WaferSource_init ''W'' 1 3600 (Some 0)) env_init)))
       = lot_count (WaferSource_init ''W'' 1 3600 None) + int 3"
    by blast+
  with h show ?thesis
    by (simp add: g)
qed

text \<open>
  The claim as stated fails for the WaferSource: with \<open>max_lots = 0\<close> the condition
  \<open>self.max_lots is None or self.lot_count < self.max_lots\<close> after each lot is false,
  so the lots follow each other without the \<open>lot_interval\<close> that None waits. With one
  wafer per lot, 10 time units after each wafer and a lot interval of 3600, two lots
  take 20 time units with 0 and 7220 with None.
\<close>

theorem zero_max_lots_counterexample:
  "now (snd (snd (WaferSource_generation_process 2 (\<lambda>j. 10)
                    (WaferSource_init ''W'' 1 3600 (Some 0)) env_init))) = 20
   \<and> now (snd (snd (WaferSource_generation_process 2 (\<lambda>j. 10)
                    (WaferSource_init ''W'' 1 3600 None) env_init))) = 7220"
  by (simp add: WaferSource_init_def env_init_def Let_def limit_reached_def send_agent_def
        logger_info_def logger_warning_def WaferAgent_def numeral_2_eq_2)

section \<open>The hold-and-wait wafer process\<close>

text \<open>
  C1. The claim: a wafer never holds more than two grants at once, and over the run it
  releases as many grants as it acquires. The code at a unit with three free parts: one
  wafer alone in the tool, one step of 5 time units at unit A with the parts P1, P2, P3.
  All three requests are granted at once; the process keeps the first, cancels only the
  requests that were not triggered, and so holds three grants together; at the end it has
  released one of its three grants, and P2 and P3 stay occupied for the rest of the run.
\<close>

theorem wafer_process_leaks_grants:
  "(let tool = MetalTool_init [[(''A'', [''P1'', ''P2'', ''P3''])]];
        s = wafer_process tool ''W1'' [stp 1 ''A'' 5] False solo_world
              (wafer_state_init 0 (shared_resources tool))
    in trace s = [Requested 0 ''P1'', Requested 1 ''P2'', Requested 2 ''P3'',
                  Granted 0 ''P1'' 0, Granted 1 ''P2'' 0, Granted 2 ''P3'' 0,
                  Released 0 ''P1'' 5]
       \<and> end_time_tracker s = Some 5
       \<and> map_option users (w_store s ''P2'') = Some [1]
       \<and> map_option users (w_store s ''P3'') = Some [2]
       \<and> n_granted (trace s) = 3 \<and> n_released (trace s) = 1)"
  by code_simp

lemma cancel_untriggered_fields [simp]:
  "w_now (cancel_untriggered zs s) = w_now s"
  "current_resource (cancel_untriggered zs s) = current_resource s"
  "current_request (cancel_untriggered zs s) = current_request s"
  "current_part_name (cancel_untriggered zs s) = current_part_name s"
  "resource_start_time (cancel_untriggered zs s) = resource_start_time s"
  "wafer_log (cancel_untriggered zs s) = wafer_log s"
  "printed (cancel_untriggered zs s) = printed s"
  "start_time_tracker (cancel_untriggered zs s) = start_time_tracker s"
  "end_time_tracker (cancel_untriggered zs s) = end_time_tracker s"
  "next_request (cancel_untriggered zs s) = next_request s"
  "races (cancel_untriggered zs s) = races s"
  by (induction zs s rule: cancel_untriggered.induct; simp)+


lemma n_granted_append [simp]: "n_granted (xs @ ys) = n_granted xs + n_granted ys"
  by (simp add: n_granted_def)

lemma n_released_append [simp]: "n_released (xs @ ys) = n_released xs + n_released ys"
  by (simp add: n_released_def)

lemma n_cancelled [simp]:
  "n_granted (map (\<lambda>((r, p), st). Cancelled r p) zs) = 0"
  "n_released (map (\<lambda>((r, p), st). Cancelled r p) zs) = 0"
  by (simp_all add: n_granted_def n_released_def filter_map comp_def split_def)

lemma n_requested [simp]:
  "n_granted (map (\<lambda>(r, p). Requested r p) rs) = 0"
  "n_released (map (\<lambda>(r, p). Requested r p) rs) = 0"
  by (simp_all add: n_granted_def n_released_def filter_map comp_def split_def)

lemma n_grants [simp]:
  "n_released (grants zs t) = 0"
  "n_granted (grants zs t) = length (filter (\<lambda>(rp, s). s \<noteq> Pending) zs)"
  by (simp_all add: n_granted_def n_released_def grants_def filter_map comp_def split_def)




lemma timed_processing_fields:
  assumes "timed_processing st s = (s', c)"
  shows "current_resource s' = current_resource s"
    and "current_request s' = current_request s"
    and "current_part_name s' = current_part_name s"
    and "resource_start_time s' = resource_start_time s"
    and "wafer_log s' = wafer_log s"
    and "printed s' = printed s"
    and "races s' = races s"
    and "trace s' = trace s"
    and "c \<noteq> Return"
    and "c = Next \<longleftrightarrow> 0 \<le> duration_min st"
    and "c = Next \<Longrightarrow> w_now s' = w_now s + duration_min st"
  using assms by (auto simp: timed_processing_def split: if_splits)






lemma n_released_single [simp]:
  "n_released [Released r p t] = 1" "n_granted [Released r p t] = 0"
  by (simp_all add: n_released_def n_granted_def)






















text \<open>
  C5. The claim: when a grant for the next station arrives, the process records the
  interval of the previous station, the one it held, from the time of that grant to now.
  The code records the interval under \<open>sorted_flow[idx-1]\<close>, the step before the
  current one in the flow, which is the station held only if that step was entered. One
  wafer alone with Q1, the only part of B, held for ever by another process, on the flow
  A for 5, B for 7, C for 3 time units: the wafer takes P1 of A at time 0, waits for Q1
  until the timeout at 1005, withdraws its request, processes the 7 time units of B on P1,
  and is granted S1 of C at 1012. The interval from 0 to 1012 on P1, a part of A, is logged
  under station B with sequence id 2, a station no part of which the wafer was ever
  granted; no interval is logged for A. Release and adoption are as claimed: P1 is released
  at 1012, S1 is held from 1012 and released at 1015, the exit time.
\<close>

theorem interval_logged_under_wrong_station:
  "(let s = wafer_process three_unit_tool ''W1'' three_unit_flow False solo_world
              (wafer_state_init 0 middle_saturated_store)
    in wafer_log s
         = [\<lparr>WaferID = ''W1'', UnitID = ''B'', SeqID = 2, PartID = Some ''P1'',
              Start = Some 0, Finish = 1012\<rparr>,
            \<lparr>WaferID = ''W1'', UnitID = ''C'', SeqID = 3, PartID = Some ''S1'',
              Start = Some 1012, Finish = 1015\<rparr>]
       \<and> trace s = [Requested 0 ''P1'', Granted 0 ''P1'' 0, Requested 1 ''Q1'',
                     Cancelled 1 ''Q1'', Requested 2 ''S1'', Granted 2 ''S1'' 1012,
                     Released 0 ''P1'' 1012, Released 2 ''S1'' 1015]
       \<and> printed s = [TimeoutNext ''W1'' ''B'']
       \<and> map_of (unit_to_parts three_unit_tool) ''A'' = Some [''P1'']
       \<and> map_of (unit_to_parts three_unit_tool) ''B'' = Some [''Q1'']
       \<and> end_time_tracker s = Some 1015
       \<and> w_store s ''P1'' = Some \<lparr>res_capacity = 1, users = [], put_queue = []\<rparr>
       \<and> w_store s ''Q1'' = Some \<lparr>res_capacity = 1, users = [99], put_queue = []\<rparr>
       \<and> w_store s ''S1'' = Some \<lparr>res_capacity = 1, users = [], put_queue = []\<rparr>)"
  by code_simp

lemma apply_op_capacity:
  "length (users R) \<le> res_capacity R \<Longrightarrow>
     length (users (apply_op ob R)) \<le> res_capacity (apply_op ob R)
     \<and> res_capacity (apply_op ob R) = res_capacity R"
  by (cases ob)
     (auto simp: request_def release_def cancel_def trigger_put_def length_remove1
           split: list.splits)

lemma fold_apply_op_capacity:
  "length (users R) \<le> res_capacity R \<Longrightarrow>
     length (users (fold apply_op ops R)) \<le> res_capacity (fold apply_op ops R)
     \<and> res_capacity (fold apply_op ops R) = res_capacity R"
proof (induction ops arbitrary: R)
  case Nil
  then show ?case by simp
next
  case (Cons ob ops)
  from apply_op_capacity [OF Cons.prems, of ob] Cons.IH [of "apply_op ob R"]
  show ?case by simp
qed

lemma resource_capacity_invariant:
  "length (users (fold apply_op ops (Resource c))) \<le> c"
  using fold_apply_op_capacity [of "Resource c" ops] by (simp add: Resource_def)

section \<open>Processing durations\<close>

lemma first_acquisition_next:
  "first_acquisition wid st rc zs s2 = (s', Next) \<Longrightarrow> w_now s' = w_now s2 + duration_min st"
  by (auto simp: first_acquisition_def Let_def timed_processing_def
        split: if_splits option.splits)

lemma next_acquisition_next:
  "next_acquisition wid sf idx st rc zs s2 = (s', Next) \<Longrightarrow>
     w_now s' = w_now s2 + duration_min st"
  by (auto simp: next_acquisition_def Let_def timed_processing_def print_def
        release_current_def split: if_splits option.splits)

lemma iteration_duration:
  assumes "map_of (unit_to_parts tool) (unit_id st) = Some ua" "ua \<noteq> []"
    and "wafer_iteration tool wid sf wld idx st s = (s', Next)"
  shows "w_now s' = w_now (snd (snd (wait_for_unit wld ua s))) + duration_min st"
proof -
  obtain rc zs s2 where w: "wait_for_unit wld ua s = (rc, zs, s2)"
    by (cases "wait_for_unit wld ua s")
  have "first_acquisition wid st rc zs s2 = (s', Next)
        \<or> next_acquisition wid sf idx st rc zs s2 = (s', Next)"
    using assms w by (auto simp: wafer_iteration_def split: if_splits)
  then show ?thesis
    using w first_acquisition_next next_acquisition_next by auto
qed

text \<open>
  C6 (as amended). The processing duration depends on the simulator. In
  \<open>FlowController._process_wafer_flow\<close>, a step with a non-zero mean on a unit with a
  resource pool takes, when its standard deviation is positive, a normal draw clamped
  below at the minimum duration, and otherwise exactly its mean; a step with mean zero
  takes no time. \<open>SemiconductorToolUnit.get_processing_time\<close> always clamps the draw
  at the minimum, so that with a deviation of zero the duration is the larger of the mean
  and the minimum. In the hold-and-wait \<open>wafer_process\<close> every iteration that goes on
  to the next step has waited exactly the step's \<open>duration_min\<close> after its resumption.
\<close>

theorem processing_durations:
  "(unit_id st \<noteq> ''LOADPORT'' \<and> duration_mean st \<noteq> 0 \<and> unit_id st \<in> set pools
    \<and> 0 \<le> FlowController_processing_time st (zs i) \<longrightarrow>
      FlowController_processing_time st (zs i)
        = (if duration_std st > 0
           then max (duration_min st) (normal (duration_mean st) (duration_std st) (zs i))
           else duration_mean st)
      \<and> process_wafer_flow pools [st] zs i t a
          = Inr (t + FlowController_processing_time st (zs i),
                 log_processing_step a (unit_id st) (seq_id st) t
                   (t + FlowController_processing_time st (zs i)) (unit_id st)))
   \<and> (unit_id st \<noteq> ''LOADPORT'' \<and> duration_mean st = 0 \<longrightarrow>
        process_wafer_flow pools [st] zs i t a
          = Inr (t, log_processing_step a (unit_id st) (seq_id st) t t ''N/A''))
   \<and> (map_of (unit_flow_steps u) sq = Some st \<and> duration_mean st \<noteq> 0
       \<and> 0 \<le> duration_std st \<longrightarrow>
        get_processing_time u sq z
          = Inr (max (duration_min st) (normal (duration_mean st) (duration_std st) z))
        \<and> (duration_std st = 0 \<longrightarrow>
             get_processing_time u sq z = Inr (max (duration_min st) (duration_mean st))))
   \<and> (map_of (unit_to_parts tool) (unit_id st) = Some ua \<and> ua \<noteq> []
       \<and> wafer_iteration tool wid sf wld idx st s = (s', Next) \<longrightarrow>
        w_now s' = w_now (snd (snd (wait_for_unit wld ua s))) + duration_min st)"
proof (intro conjI impI)
  assume h: "unit_id st \<noteq> ''LOADPORT'' \<and> duration_mean st \<noteq> 0 \<and> unit_id st \<in> set pools
    \<and> 0 \<le> FlowController_processing_time st (zs i)"
  show "FlowController_processing_time st (zs i)
        = (if duration_std st > 0
           then max (duration_min st) (normal (duration_mean st) (duration_std st) (zs i))
           else duration_mean st)"
    by (simp add: FlowController_processing_time_def)
  from h show "process_wafer_flow pools [st] zs i t a
          = Inr (t + FlowController_processing_time st (zs i),
                 log_processing_step a (unit_id st) (seq_id st) t
                   (t + FlowController_processing_time st (zs i)) (unit_id st))"
    by (simp add: Let_def not_less [symmetric])
next
  assume "unit_id st \<noteq> ''LOADPORT'' \<and> duration_mean st = 0"
  then show "process_wafer_flow pools [st] zs i t a
          = Inr (t, log_processing_step a (unit_id st) (seq_id st) t t ''N/A'')"
    by simp
next
  assume h: "map_of (unit_flow_steps u) sq = Some st \<and> duration_mean st \<noteq> 0
       \<and> 0 \<le> duration_std st"
  then show g: "get_processing_time u sq z
          = Inr (max (duration_min st) (normal (duration_mean st) (duration_std st) z))"
    by (simp add: get_processing_time_def not_less [symmetric])
  assume "duration_std st = 0"
  then show "get_processing_time u sq z = Inr (max (duration_min st) (duration_mean st))"
    using g by (simp add: normal_def)
next
  assume "map_of (unit_to_parts tool) (unit_id st) = Some ua \<and> ua \<noteq> []
       \<and> wafer_iteration tool wid sf wld idx st s = (s', Next)"
  then show "w_now s' = w_now (snd (snd (wait_for_unit wld ua s))) + duration_min st"
    using iteration_duration by blast
qed

theorem processing_durations_witness:
  "unit_id step_min_above_mean \<noteq> ''LOADPORT'' \<and> duration_mean step_min_above_mean \<noteq> 0
   \<and> unit_id step_min_above_mean \<in> set [''A'']
   \<and> 0 \<le> FlowController_processing_time step_min_above_mean 0
   \<and> map_of (unit_flow_steps (SemiconductorToolUnit_init ''A'' [''R1'']
                [step_min_above_mean] False)) 1 = Some step_min_above_mean
   \<and> 0 \<le> duration_std step_min_above_mean
   \<and> map_of (unit_to_parts two_unit_tool) (unit_id (stp 1 ''A'' 5)) = Some [''P1'']
   \<and> snd (wafer_iteration two_unit_tool ''W1'' two_unit_flow solo_world 0 (stp 1 ''A'' 5)
            (wafer_state_init 0 (shared_resources two_unit_tool))) = Next
   \<and> FlowController_processing_time step_min_above_mean 0 = 10
   \<and> get_processing_time (SemiconductorToolUnit_init ''A'' [''R1''] [step_min_above_mean] False)
        1 0 = Inr 20
   \<and> w_now (fst (wafer_iteration two_unit_tool ''W1'' two_unit_flow solo_world 0
                   (stp 1 ''A'' 5) (wafer_state_init 0 (shared_resources two_unit_tool))))
        = w_now (snd (snd (wait_for_unit solo_world [''P1'']
                   (wafer_state_init 0 (shared_resources two_unit_tool)))))
          + duration_min (stp 1 ''A'' 5)"
proof -
  let ?u = "SemiconductorToolUnit_init ''A'' [''R1''] [step_min_above_mean] False"
  let ?s = "wafer_state_init 0 (shared_resources two_unit_tool)"
  let ?it = "wafer_iteration two_unit_tool ''W1'' two_unit_flow solo_world 0 (stp 1 ''A'' 5) ?s"
  have h1: "unit_id step_min_above_mean \<noteq> ''LOADPORT''" by code_simp
  have h2: "duration_mean step_min_above_mean \<noteq> 0" by (simp add: step_min_above_mean_def)
  have h3: "unit_id step_min_above_mean \<in> set [''A'']" by (simp add: step_min_above_mean_def)
  have h4: "0 \<le> FlowController_processing_time step_min_above_mean ((\<lambda>i. 0) (0::nat))"
    by (simp add: FlowController_processing_time_def step_min_above_mean_def)
  have h5: "map_of (unit_flow_steps ?u) 1 = Some step_min_above_mean"
    by (simp add: SemiconductorToolUnit_init_def step_min_above_mean_def)
  have h6: "0 \<le> duration_std step_min_above_mean" by (simp add: step_min_above_mean_def)
  have h7: "map_of (unit_to_parts two_unit_tool) (unit_id (stp 1 ''A'' 5)) = Some [''P1'']"
    by code_simp
  have h8: "[''P1''] \<noteq> []" by simp
  have h9: "snd ?it = Next" by code_simp
  have h10: "?it = (fst ?it, Next)" using h9 by (metis prod.collapse)
  have v1: "FlowController_processing_time step_min_above_mean 0 = 10"
    by (simp add: FlowController_processing_time_def step_min_above_mean_def)
  have v2: "max (duration_min step_min_above_mean)
              (normal (duration_mean step_min_above_mean) (duration_std step_min_above_mean) 0)
            = 20"
    by (simp add: normal_def step_min_above_mean_def)
  note T = processing_durations [where st=step_min_above_mean and pools="[''A'']"
      and zs="\<lambda>i. 0" and i=0 and u="?u" and sq=1 and z=0, of _ _ two_unit_tool]
  have g: "get_processing_time ?u 1 0 = Inr 20"
    using T h5 h2 h6 v2 by simp
  note T2 = processing_durations [where st="stp 1 ''A'' 5" and tool=two_unit_tool
      and ua="[''P1'']" and wid="''W1''" and sf=two_unit_flow and wld=solo_world and idx=0
      and s="?s" and s'="fst ?it"]
  have d: "w_now (fst ?it)
        = w_now (snd (snd (wait_for_unit solo_world [''P1''] ?s))) + duration_min (stp 1 ''A'' 5)"
    using T2 h7 h8 h10 by blast
  show ?thesis using h1 h2 h3 h4 h5 h6 h7 h9 v1 g d by simp
qed

text \<open>
  The claim as stated fails in two of the three simulators: for a step with mean 10, no
  deviation and minimum 20, \<open>get_processing_time\<close> gives 20, not the mean; and the
  hold-and-wait process lets a step with mean 10, no deviation and minimum 5 take 5.
\<close>

theorem processing_duration_counterexample:
  "duration_std step_min_above_mean = 0 \<and> duration_mean step_min_above_mean = 10
   \<and> get_processing_time (SemiconductorToolUnit_init ''A'' [''R1''] [step_min_above_mean] False)
        1 0 = Inr 20
   \<and> duration_std step_min_below_mean = 0 \<and> duration_mean step_min_below_mean = 10
   \<and> end_time_tracker (wafer_process (MetalTool_init [[(''A'', [''P1''])]]) ''W1''
        [step_min_below_mean] False solo_world
        (wafer_state_init 0 (shared_resources (MetalTool_init [[(''A'', [''P1''])]]))))
       = Some 5"
  by code_simp

section \<open>Missing route\<close>

text \<open>
  C8. When a wafer arrives at a station unit that has no step for the wafer's current
  sequence position, and the unit has a downstream node, the step returns normally: the
  unit logs a warning, advances the wafer's sequence pointer by one, counts the wafer as
  entered and exited, and starts the downstream node's \<open>receive_agent\<close> with the wafer.
\<close>

theorem missing_route_forwards:
  "find (\<lambda>st. seq_id st = current_seq_id a) (map snd (unit_flow_steps u)) = None
   \<and> output_port u = Some d \<longrightarrow>
     SemiconductorToolUnit_receive_agent u e r z a
       = (u\<lparr>agents_entered := agents_entered u + 1, agents_exited := agents_exited u + 1\<rparr>,
          e\<lparr>logger := logger e @
                [LogRecord WARNING (name u) ''No step found for agent'' (agent_id a) (now e)],
            processes := processes e @ [(d, a\<lparr>current_seq_id := current_seq_id a + 1\<rparr>)]\<rparr>,
          a\<lparr>current_seq_id := current_seq_id a + 1\<rparr>, Returned)"
  by (simp add: SemiconductorToolUnit_receive_agent_def Let_def send_agent_def
        logger_warning_def)

theorem missing_route_forwards_witness:
  "find (\<lambda>st. seq_id st = current_seq_id (WaferAgent ''W1'' ''L'' 0))
        (map snd (unit_flow_steps unit_B)) = None
   \<and> output_port unit_B = Some ''WaferSink''
   \<and> snd (snd (snd (SemiconductorToolUnit_receive_agent unit_B env_init 0 0
                       (WaferAgent ''W1'' ''L'' 0)))) = Returned
   \<and> processes (fst (snd (SemiconductorToolUnit_receive_agent unit_B env_init 0 0
                       (WaferAgent ''W1'' ''L'' 0))))
       = [(''WaferSink'', (WaferAgent ''W1'' ''L'' 0)\<lparr>current_seq_id := 2\<rparr>)]"
proof -
  have h1: "find (\<lambda>st. seq_id st = current_seq_id (WaferAgent ''W1'' ''L'' 0))
        (map snd (unit_flow_steps unit_B)) = None"
    by (simp add: unit_B_def SemiconductorToolUnit_init_def shared_part_flow_def stp_def
          WaferAgent_def)
  have h2: "output_port unit_B = Some ''WaferSink''" by (simp add: unit_B_def)
  have c: "current_seq_id (WaferAgent ''W1'' ''L'' 0) + 1 = 2" by (simp add: WaferAgent_def)
  show ?thesis
    using missing_route_forwards [of "WaferAgent ''W1'' ''L'' 0" unit_B "''WaferSink''"
            env_init 0 0] h1 h2 c
    by (simp add: env_init_def)
qed

section \<open>Capacity of a physical part\<close>

text \<open>
  C2. The claim: a physical part referenced by more than one station group never serves
  more entities at once than its capacity allows. The code of
  \<open>SemiconductorToolUnit.__init__\<close> at the units A and B that both name the part R1:
  each unit builds a resource of its own for R1. Wafer W1 is processed at A from 0 to 5
  and is handed to B, where it is granted B's R1 at 5; wafer W2 arrives at A at 6 and is
  granted A's R1 at once: the part R1 of capacity 1 has two holders. With the shared
  resources of \<open>MetalTool\<close> the second request for R1 waits in the queue instead.
\<close>

theorem shared_part_double_booked:
  "(let w1 = WaferAgent ''W1'' ''L'' 0; w2 = WaferAgent ''W2'' ''L'' 6;
        (a1, e1, w1a, o1) = SemiconductorToolUnit_receive_agent unit_A env_init 0 0 w1;
        (a2, e2, w1b) = process_wafer_complete a1 (e1\<lparr>now := 5\<rparr>) w1a (stp 1 ''A'' 5) ''R1'' 0 0;
        (b1, e3, w1c, o2) = SemiconductorToolUnit_receive_agent unit_B e2 1 0 w1b;
        (a3, e4, w2a, o3) = SemiconductorToolUnit_receive_agent a2 (e3\<lparr>now := 6\<rparr>) 2 0 w2
    in o1 = Suspended ''R1'' 0 5 0 \<and> map fst (processes e2) = [''B'']
       \<and> o2 = Suspended ''R1'' 1 7 5 \<and> o3 = Suspended ''R1'' 2 5 6
       \<and> holders a3 ''R1'' = [2] \<and> holders b1 ''R1'' = [1]
       \<and> length (holders a3 ''R1'' @ holders b1 ''R1'') = 2)
   \<and> (let R = request 2 (request 1 (the (shared_resources
                 (MetalTool_init [[(''A'', [''R1''])], [(''B'', [''R1''])]]) ''R1'')))
      in users R = [1] \<and> put_queue R = [2])"
  by code_simp

section \<open>A pool of capacity two\<close>

text \<open>
  C9. One ResourcePool A of capacity 2 and service time 5, three entities arriving at the
  times 0, 1 and 2: the first two seize the resource at 0 and 1 and complete at 5 and 6;
  the third waits from 2 until the first release at 5, seizes the resource then, and
  completes at 10. Six events end the run, with no process left waiting.
\<close>

theorem pool_capacity_two_scenario:
  "map_option (\<lambda>s. (logger (penv s), suspended s, timers s))
     (pool_run 6 [(0, ag ''e1''), (1, ag ''e2''), (2, ag ''e3'')]
        (pool_sim_init (ResourcePool_init ''A'' 2 5)))
   = Some ([LogRecord INFO ''A'' ''received'' ''e1'' 0,
            LogRecord INFO ''A'' ''seized resource for'' ''e1'' 0,
            LogRecord INFO ''A'' ''received'' ''e2'' 1,
            LogRecord INFO ''A'' ''seized resource for'' ''e2'' 1,
            LogRecord INFO ''A'' ''received'' ''e3'' 2,
            LogRecord INFO ''A'' ''completed processing'' ''e1'' 5,
            LogRecord WARNING ''A'' ''reached end of flow at'' ''e1'' 5,
            LogRecord INFO ''A'' ''seized resource for'' ''e3'' 5,
            LogRecord INFO ''A'' ''completed processing'' ''e2'' 6,
            LogRecord WARNING ''A'' ''reached end of flow at'' ''e2'' 6,
            LogRecord INFO ''A'' ''completed processing'' ''e3'' 10,
            LogRecord WARNING ''A'' ''reached end of flow at'' ''e3'' 10], [], [])"
  by code_simp

end
